theory Spec2Isabelle
  imports
    Main
    "HOL-Library.Multiset"
    "HOL-Library.Char_ord"
    "HOL-Library.List_Lexorder"
begin

section \<open>Python values\<close>

text \<open>
  Embedding of \<^verbatim>\<open>querify/querify.py\<close>. Python \<^verbatim>\<open>str\<close> is \<^typ>\<open>string\<close>, Python
  \<^verbatim>\<open>int\<close> is \<^typ>\<open>int\<close>. Floats and timestamps are only carried around by the code (their
  text comes from Python's own \<^verbatim>\<open>repr\<close> and \<^verbatim>\<open>strftime\<close>), so they are opaque types.
\<close>

typedecl pyfloat
typedecl pydatetime

text \<open>
  \<^verbatim>\<open>bool\<close> is a subclass of \<^verbatim>\<open>int\<close> in Python: \<^verbatim>\<open>isinstance(True, int)\<close> holds, so an
  \<^verbatim>\<open>IntLiteral\<close> may wrap either an integer or a boolean.
\<close>

datatype intlit = IntVal int | BoolVal bool

section \<open>Expression nodes\<close>

text \<open>
  The \<^verbatim>\<open>LiteralExpr\<close> family. Each constructor is one final class, holding the
  \<^verbatim>\<open>literal\<close> field with the type that \<^verbatim>\<open>validate_literal\<close> admits.
\<close>

datatype literal =
    StringLiteral string
  | BooleanLiteral bool
  | IntLiteral intlit
  | FloatLiteral pyfloat
  | DateTimeLiteral pydatetime
  | RegexLiteral string
  | SchemaLiteral string

text \<open>The final subclasses of \<^verbatim>\<open>BinaryBooleanExpr\<close> and \<^verbatim>\<open>LogicalExpr\<close>.\<close>

datatype compare_cls =
  Equal | NotEqual | GreaterThan | GreaterThanOrEqual | LessThan | LessThanOrEqual

datatype regex_cls = MatchRegex | InverseMatchRegex

datatype null_cls = Null | Missing

datatype logical_cls = And | Or

text \<open>
  Instances of the final classes. \<^verbatim>\<open>BinaryBooleanExpr.__init__\<close> sets \<^verbatim>\<open>left\<close> to the result
  of \<^verbatim>\<open>SchemaLiteral.from_json\<close>, so \<^verbatim>\<open>left\<close> is always a \<^verbatim>\<open>SchemaLiteral\<close> and is stored by
  its text; \<^verbatim>\<open>right\<close> is a literal node, which \<^verbatim>\<open>MatchRegex\<close> and \<^verbatim>\<open>InverseMatchRegex\<close>
  replace by a \<^verbatim>\<open>RegexLiteral\<close> (stored by its pattern) and which \<^verbatim>\<open>Null\<close> and \<^verbatim>\<open>Missing\<close>
  require to be a \<^verbatim>\<open>BooleanLiteral\<close> (stored by its truth value). The abstract classes
  (\<^verbatim>\<open>Expr\<close>, \<^verbatim>\<open>LiteralExpr\<close>, \<^verbatim>\<open>OperatorExpr\<close>, \<^verbatim>\<open>BooleanExpr\<close>, \<^verbatim>\<open>UnaryBooleanExpr\<close>,
  \<^verbatim>\<open>BinaryBooleanExpr\<close>, \<^verbatim>\<open>LogicalExpr\<close>) have no instances here.
\<close>

datatype expr =
    Literal literal
  | Not_expr expr
  | Compare compare_cls string literal
  | RegexMatch regex_cls string string
  | NullTest null_cls string bool
  | Logical logical_cls "expr list"

text \<open>
  What a caller may pass as a filter or as a constructor argument: JSON-like Python values
  (a \<^verbatim>\<open>dict\<close> keeps its insertion order, hence an association list; its keys are
  distinct, which nothing below relies on) or an already constructed node.
\<close>

datatype json =
    JStr string
  | JBool bool
  | JInt int
  | JFloat pyfloat
  | JDateTime pydatetime
  | JNone
  | JList "json list"
  | JDict "(string \<times> json) list"
  | JExpr expr

section \<open>Classes and the subclass registry\<close>

datatype literal_cls =
    StringLiteral_c | BooleanLiteral_c | IntLiteral_c | FloatLiteral_c
  | DateTimeLiteral_c | RegexLiteral_c | SchemaLiteral_c

datatype cls =
    Expr
  | LiteralExpr
  | LiteralC literal_cls
  | OperatorExpr
  | BooleanExpr
  | UnaryBooleanExpr
  | Not_c
  | BinaryBooleanExpr
  | CompareC compare_cls
  | RegexC regex_cls
  | NullC null_cls
  | LogicalExpr
  | LogicalC logical_cls

text \<open>\<^verbatim>\<open>type(json)\<close>, and the keys under which classes register: a name or a Python type.\<close>

datatype pytype =
    T_str | T_bool | T_int | T_float | T_datetime | T_NoneType | T_list | T_dict
  | T_class cls

datatype key = KName string | KType pytype

section \<open>Errors\<close>

text \<open>
  Modelled from the spec: the module \<^verbatim>\<open>querify/errors.py\<close>, which declares \<^verbatim>\<open>InvalidQuery\<close>,
  \<^verbatim>\<open>UnrecognizedExprType\<close> and \<^verbatim>\<open>UnrecognizedJsonableClass\<close>, is not among the sources. The
  spec lists them as separate error kinds, so they are three exception classes, none a
  subclass of another or of \<^verbatim>\<open>KeyError\<close>. An \<^verbatim>\<open>InvalidQuery\<close> carries what its message is
  formatted from, one constructor per \<^verbatim>\<open>raise InvalidQuery\<close> of the source; where the
  message is formatted from \<^verbatim>\<open>self.key\<close>, that is the key of the class.
\<close>

datatype invalid_query =
    Invalid_type_of_literal json cls
      \<comment> \<open>\<^verbatim>\<open>Invalid type of literal "{}". Expected "{}", but got "{}"\<close>\<close>
  | Unexpected_expression_type json cls
      \<comment> \<open>\<^verbatim>\<open>Unexpected expression type for json {!r}. Expected "{}", but got ...\<close>\<close>
  | Operator_on_list string
      \<comment> \<open>\<^verbatim>\<open>"{}" operator cannot be applied on a list.\<close>\<close>
  | Condition_unrecognized json
      \<comment> \<open>\<^verbatim>\<open>Query condition is unrecognized: {!r}\<close>\<close>
  | Invalid_tag_filter string json
      \<comment> \<open>\<^verbatim>\<open>Invalid query "{ tag: tag_filter }". A tag' filter must be ...\<close>\<close>
  | Operand_not_boolean "key option"
      \<comment> \<open>\<^verbatim>\<open>The operand of "{}" must be either true or false.\<close>\<close>
  | Not_applied_on_list "key option"
      \<comment> \<open>\<^verbatim>\<open>The "{}" operator is not applied on a list.\<close>\<close>

datatype error =
    InvalidQuery invalid_query
  | UnrecognizedJsonableClass
  | UnrecognizedExprType
  | KeyError
  | AttributeError
  | RuntimeError
  | StopIteration
  | TypeError
  | NotImplementedError
  | re_error

section \<open>String helpers\<close>

definition startswith :: "string \<Rightarrow> string \<Rightarrow> bool" where
  "startswith s p = (take (length p) s = p)"

definition endswith :: "string \<Rightarrow> string \<Rightarrow> bool" where
  "endswith s p = (length p \<le> length s \<and> drop (length s - length p) s = p)"

text \<open>The slice \<^verbatim>\<open>s[1:-1]\<close>.\<close>

definition slice_1_m1 :: "string \<Rightarrow> string" where
  "slice_1_m1 s = butlast (tl s)"

text \<open>\<^verbatim>\<open>sep.join(xs)\<close>.\<close>

fun join :: "string \<Rightarrow> string list \<Rightarrow> string" where
  "join sep [] = []"
| "join sep [x] = x"
| "join sep (x # y # ys) = x @ sep @ join sep (y # ys)"

text \<open>\<^verbatim>\<open>repr\<close> of an integer and of a boolean.\<close>

fun digits :: "nat \<Rightarrow> string" where
  "digits n =
     (if n < 10 then [''0123456789'' ! n]
      else digits (n div 10) @ [''0123456789'' ! (n mod 10)])"

declare digits.simps [simp del]

definition repr_int :: "int \<Rightarrow> string" where
  "repr_int i = (if i < 0 then CHR ''-'' # digits (nat (- i)) else digits (nat i))"

definition repr_bool :: "bool \<Rightarrow> string" where
  "repr_bool b = (if b then ''True'' else ''False'')"

fun repr_intlit :: "intlit \<Rightarrow> string" where
  "repr_intlit (IntVal i) = repr_int i"
| "repr_intlit (BoolVal b) = repr_bool b"

text \<open>How \<^verbatim>\<open>'{}'.format\<close> prints an operator attribute, which is \<^verbatim>\<open>None\<close> when a class has none.\<close>

fun format_operator :: "string option \<Rightarrow> string" where
  "format_operator None = ''None''"
| "format_operator (Some s) = s"

text \<open>\<^verbatim>\<open>'{} {} {}'.format(a, b, c)\<close>.\<close>

definition format3 :: "string \<Rightarrow> string \<Rightarrow> string \<Rightarrow> string" where
  "format3 a b c = a @ '' '' @ b @ '' '' @ c"

section \<open>The filter normalizer\<close>

text \<open>\<^verbatim>\<open>isinstance(condition, (str, int, float, datetime))\<close>.\<close>

fun is_scalar :: "json \<Rightarrow> bool" where
  "is_scalar (JStr _) = True"
| "is_scalar (JBool _) = True"
| "is_scalar (JInt _) = True"
| "is_scalar (JFloat _) = True"
| "is_scalar (JDateTime _) = True"
| "is_scalar _ = False"

text \<open>\<^verbatim>\<open>{tag: {op: operand}}\<close> and \<^verbatim>\<open>{'__or__': [{tag: {'__eq__': v}} for v in vs]}\<close>.\<close>

definition condition_dict :: "string \<Rightarrow> string \<Rightarrow> json \<Rightarrow> json" where
  "condition_dict tag op operand = JDict [(tag, JDict [(op, operand)])]"

definition or_of_equalities :: "string \<Rightarrow> json list \<Rightarrow> json" where
  "or_of_equalities tag vs = JDict [(''__or__'', JList (map (condition_dict tag ''__eq__'') vs))]"

text \<open>
  The inner loop \<^verbatim>\<open>for op, condition in tag_filter.items()\<close>: the entries it appends, or the
  first error it raises.
\<close>

fun normalize_conditions :: "string \<Rightarrow> (string \<times> json) list \<Rightarrow> error + json list" where
  "normalize_conditions tag [] = Inr []"
| "normalize_conditions tag ((op, condition) # rest) =
     (case
        (if is_scalar condition then Inr (condition_dict tag op condition)
         else (case condition of
                 JList vs \<Rightarrow>
                   if op = ''__in__'' then Inr (or_of_equalities tag vs)
                   else Inl (InvalidQuery (Operator_on_list op))
               | _ \<Rightarrow> Inl (InvalidQuery (Condition_unrecognized condition))))
      of
        Inl err \<Rightarrow> Inl err
      | Inr e \<Rightarrow>
          (case normalize_conditions tag rest of
             Inl err \<Rightarrow> Inl err
           | Inr es \<Rightarrow> Inr (e # es)))"

text \<open>Appending what one entry contributes to what the rest of the loop contributes.\<close>

fun extend_exprs :: "error + json list \<Rightarrow> error + json list \<Rightarrow> error + json list" where
  "extend_exprs (Inl err) _ = Inl err"
| "extend_exprs (Inr new) (Inl err) = Inl err"
| "extend_exprs (Inr new) (Inr rest) = Inr (new @ rest)"

text \<open>
  \<^verbatim>\<open>OperatorExpr.normalize_eval_expr_dict\<close>. \<open>normalize_items\<close> is the loop over
  \<^verbatim>\<open>filter.items()\<close> and returns the list \<^verbatim>\<open>exprs\<close>; \<open>normalize_each\<close> is the comprehension
  \<^verbatim>\<open>[cls.normalize_eval_expr_dict(c) for c in tag_filter]\<close>. A value without \<^verbatim>\<open>.items()\<close>
  raises \<^verbatim>\<open>AttributeError\<close>.
\<close>

fun normalize_eval_expr_dict :: "json \<Rightarrow> error + json"
  and normalize_items :: "(string \<times> json) list \<Rightarrow> error + json list"
  and normalize_each :: "json list \<Rightarrow> error + json list"
where
  "normalize_eval_expr_dict (JDict items) =
     (case normalize_items items of
        Inl err \<Rightarrow> Inl err
      | Inr exprs \<Rightarrow>
          Inr (if length exprs > 1 then JDict [(''__and__'', JList exprs)]
               else if length exprs = 1 then hd exprs
               else JDict []))"
| "normalize_eval_expr_dict (JStr v) = Inl AttributeError"
| "normalize_eval_expr_dict (JBool v) = Inl AttributeError"
| "normalize_eval_expr_dict (JInt v) = Inl AttributeError"
| "normalize_eval_expr_dict (JFloat v) = Inl AttributeError"
| "normalize_eval_expr_dict (JDateTime v) = Inl AttributeError"
| "normalize_eval_expr_dict JNone = Inl AttributeError"
| "normalize_eval_expr_dict (JList v) = Inl AttributeError"
| "normalize_eval_expr_dict (JExpr v) = Inl AttributeError"
| "normalize_items [] = Inr []"
| "normalize_items ((tag, JStr s) # rest) =
     extend_exprs
       (if startswith s ''/'' \<and> endswith s ''/''
        then Inr [condition_dict tag ''__regex__'' (JStr (slice_1_m1 s))]
        else Inr [condition_dict tag ''__eq__'' (JStr s)])
       (normalize_items rest)"
| "normalize_items ((tag, JBool b) # rest) =
     extend_exprs (Inr [condition_dict tag ''__eq__'' (JBool b)]) (normalize_items rest)"
| "normalize_items ((tag, JInt i) # rest) =
     extend_exprs (Inr [condition_dict tag ''__eq__'' (JInt i)]) (normalize_items rest)"
| "normalize_items ((tag, JFloat x) # rest) =
     extend_exprs (Inr [condition_dict tag ''__eq__'' (JFloat x)]) (normalize_items rest)"
| "normalize_items ((tag, JList cs) # rest) =
     extend_exprs
       (if tag = ''__and__'' then normalize_each cs
        else if tag = ''__or__'' then
          (case normalize_each cs of
             Inl err \<Rightarrow> Inl err
           | Inr ns \<Rightarrow> Inr [JDict [(''__or__'', JList ns)]])
        else Inr [or_of_equalities tag cs])
       (normalize_items rest)"
| "normalize_items ((tag, JDict d) # rest) =
     extend_exprs
       (if tag = ''__not__'' then
          (case normalize_eval_expr_dict (JDict d) of
             Inl err \<Rightarrow> Inl err
           | Inr n \<Rightarrow> Inr [JDict [(''__not__'', n)]])
        else normalize_conditions tag d)
       (normalize_items rest)"
| "normalize_items ((tag, JDateTime t) # rest) =
     Inl (InvalidQuery (Invalid_tag_filter tag (JDateTime t)))"
| "normalize_items ((tag, JNone) # rest) =
     Inl (InvalidQuery (Invalid_tag_filter tag JNone))"
| "normalize_items ((tag, JExpr e) # rest) =
     Inl (InvalidQuery (Invalid_tag_filter tag (JExpr e)))"
| "normalize_each [] = Inr []"
| "normalize_each (c # cs) =
     (case normalize_eval_expr_dict c of
        Inl err \<Rightarrow> Inl err
      | Inr n \<Rightarrow>
          (case normalize_each cs of
             Inl err \<Rightarrow> Inl err
           | Inr ns \<Rightarrow> Inr (n # ns)))"

section \<open>Classes: instances, registry, candidate keys\<close>

fun literal_class_of :: "literal \<Rightarrow> literal_cls" where
  "literal_class_of (StringLiteral _) = StringLiteral_c"
| "literal_class_of (BooleanLiteral _) = BooleanLiteral_c"
| "literal_class_of (IntLiteral _) = IntLiteral_c"
| "literal_class_of (FloatLiteral _) = FloatLiteral_c"
| "literal_class_of (DateTimeLiteral _) = DateTimeLiteral_c"
| "literal_class_of (RegexLiteral _) = RegexLiteral_c"
| "literal_class_of (SchemaLiteral _) = SchemaLiteral_c"

text \<open>\<^verbatim>\<open>type(e)\<close> of a node.\<close>

fun class_of :: "expr \<Rightarrow> cls" where
  "class_of (Literal l) = LiteralC (literal_class_of l)"
| "class_of (Not_expr _) = Not_c"
| "class_of (Compare k _ _) = CompareC k"
| "class_of (RegexMatch k _ _) = RegexC k"
| "class_of (NullTest k _ _) = NullC k"
| "class_of (Logical k _) = LogicalC k"

text \<open>A class followed by its base classes among the classes of this module.\<close>

fun mro :: "cls \<Rightarrow> cls list" where
  "mro Expr = [Expr]"
| "mro LiteralExpr = [LiteralExpr, Expr]"
| "mro (LiteralC k) = [LiteralC k, LiteralExpr, Expr]"
| "mro OperatorExpr = [OperatorExpr, Expr]"
| "mro BooleanExpr = [BooleanExpr, OperatorExpr, Expr]"
| "mro UnaryBooleanExpr = [UnaryBooleanExpr, BooleanExpr, OperatorExpr, Expr]"
| "mro Not_c = [Not_c, UnaryBooleanExpr, BooleanExpr, OperatorExpr, Expr]"
| "mro BinaryBooleanExpr = [BinaryBooleanExpr, BooleanExpr, OperatorExpr, Expr]"
| "mro (CompareC k) = [CompareC k, BinaryBooleanExpr, BooleanExpr, OperatorExpr, Expr]"
| "mro (RegexC k) = [RegexC k, BinaryBooleanExpr, BooleanExpr, OperatorExpr, Expr]"
| "mro (NullC k) = [NullC k, BinaryBooleanExpr, BooleanExpr, OperatorExpr, Expr]"
| "mro LogicalExpr = [LogicalExpr, BooleanExpr, OperatorExpr, Expr]"
| "mro (LogicalC k) = [LogicalC k, LogicalExpr, BooleanExpr, OperatorExpr, Expr]"

definition issubclass :: "cls \<Rightarrow> cls \<Rightarrow> bool" where
  "issubclass c d = (d \<in> set (mro c))"

definition isinstance :: "expr \<Rightarrow> cls \<Rightarrow> bool" where
  "isinstance e c = issubclass (class_of e) c"

text \<open>The class attribute \<^verbatim>\<open>final\<close>, set by the metaclass from the class body.\<close>

fun final :: "cls \<Rightarrow> bool" where
  "final (LiteralC _) = True"
| "final Not_c = True"
| "final (CompareC _) = True"
| "final (RegexC _) = True"
| "final (NullC _) = True"
| "final (LogicalC _) = True"
| "final _ = False"

text \<open>
  The class attribute \<^verbatim>\<open>key\<close>: a name, or a Python type for five of the literal classes.
  \<^verbatim>\<open>Expr\<close> has none; the classes that declare none inherit \<^verbatim>\<open>'operator_expr'\<close> from
  \<^verbatim>\<open>OperatorExpr\<close>.
\<close>

fun cls_key :: "cls \<Rightarrow> key option" where
  "cls_key Expr = None"
| "cls_key LiteralExpr = Some (KName ''literal'')"
| "cls_key (LiteralC StringLiteral_c) = Some (KType T_str)"
| "cls_key (LiteralC BooleanLiteral_c) = Some (KType T_bool)"
| "cls_key (LiteralC IntLiteral_c) = Some (KType T_int)"
| "cls_key (LiteralC FloatLiteral_c) = Some (KType T_float)"
| "cls_key (LiteralC DateTimeLiteral_c) = Some (KType T_datetime)"
| "cls_key (LiteralC RegexLiteral_c) = Some (KName ''regex'')"
| "cls_key (LiteralC SchemaLiteral_c) = Some (KName ''schema'')"
| "cls_key OperatorExpr = Some (KName ''operator_expr'')"
| "cls_key BooleanExpr = Some (KName ''operator_expr'')"
| "cls_key UnaryBooleanExpr = Some (KName ''operator_expr'')"
| "cls_key Not_c = Some (KName ''__not__'')"
| "cls_key BinaryBooleanExpr = Some (KName ''operator_expr'')"
| "cls_key (CompareC Equal) = Some (KName ''__eq__'')"
| "cls_key (CompareC NotEqual) = Some (KName ''__neq__'')"
| "cls_key (CompareC GreaterThan) = Some (KName ''__gt__'')"
| "cls_key (CompareC GreaterThanOrEqual) = Some (KName ''__gte__'')"
| "cls_key (CompareC LessThan) = Some (KName ''__lt__'')"
| "cls_key (CompareC LessThanOrEqual) = Some (KName ''__lte__'')"
| "cls_key (RegexC MatchRegex) = Some (KName ''__regex__'')"
| "cls_key (RegexC InverseMatchRegex) = Some (KName ''__iregex__'')"
| "cls_key (NullC Null) = Some (KName ''__null__'')"
| "cls_key (NullC Missing) = Some (KName ''__missing__'')"
| "cls_key LogicalExpr = Some (KName ''operator_expr'')"
| "cls_key (LogicalC And) = Some (KName ''__and__'')"
| "cls_key (LogicalC Or) = Some (KName ''__or__'')"

text \<open>
  The three \<^verbatim>\<open>subclasses\<close> dictionaries that \<^verbatim>\<open>ClassWithSubclassDictMeta\<close> fills, one for each
  class with \<^verbatim>\<open>base = True\<close>: \<^verbatim>\<open>Expr\<close>, \<^verbatim>\<open>LiteralExpr\<close> and \<^verbatim>\<open>OperatorExpr\<close>. A class whose body
  declares a key registers under it, in the dictionary it inherits or, for a base class,
  in that of its own base. The lists are the registered classes in the order of their
  definition; no two of a list have the same key.
\<close>

definition Expr_classes :: "cls list" where
  "Expr_classes = [LiteralExpr, OperatorExpr]"

definition LiteralExpr_classes :: "cls list" where
  "LiteralExpr_classes =
     [LiteralC StringLiteral_c, LiteralC BooleanLiteral_c, LiteralC IntLiteral_c,
      LiteralC FloatLiteral_c, LiteralC DateTimeLiteral_c, LiteralC RegexLiteral_c,
      LiteralC SchemaLiteral_c]"

definition OperatorExpr_classes :: "cls list" where
  "OperatorExpr_classes =
     [Not_c, CompareC Equal, CompareC NotEqual, CompareC GreaterThan,
      CompareC GreaterThanOrEqual, CompareC LessThan, CompareC LessThanOrEqual,
      RegexC MatchRegex, RegexC InverseMatchRegex, NullC Null, NullC Missing,
      LogicalC And, LogicalC Or]"

definition registry :: "cls list \<Rightarrow> key \<Rightarrow> cls option" where
  "registry classes k = find (\<lambda>c. cls_key c = Some k) classes"

text \<open>\<^verbatim>\<open>cls[key]\<close>: \<open>None\<close> is the \<^verbatim>\<open>KeyError\<close> of \<^verbatim>\<open>__getitem__\<close>.\<close>

definition subclasses :: "cls \<Rightarrow> key \<Rightarrow> cls option" where
  "subclasses c k =
     (if issubclass c OperatorExpr then registry OperatorExpr_classes k
      else if issubclass c LiteralExpr then registry LiteralExpr_classes k
      else registry Expr_classes k)"

fun type_of :: "json \<Rightarrow> pytype" where
  "type_of (JStr _) = T_str"
| "type_of (JBool _) = T_bool"
| "type_of (JInt _) = T_int"
| "type_of (JFloat _) = T_float"
| "type_of (JDateTime _) = T_datetime"
| "type_of JNone = T_NoneType"
| "type_of (JList _) = T_list"
| "type_of (JDict _) = T_dict"
| "type_of (JExpr e) = T_class (class_of e)"

text \<open>
  \<^verbatim>\<open>cls.cls_keys_from_json(json)\<close>, the candidate keys in the order they are yielded. In
  \<^verbatim>\<open>OperatorExpr.cls_keys_from_json\<close>, \<^verbatim>\<open>next(iter(json.items()))\<close> on an empty mapping raises
  \<^verbatim>\<open>StopIteration\<close> inside a generator, which Python (3.7 and later) turns into
  \<^verbatim>\<open>RuntimeError\<close>.
\<close>

definition cls_keys_from_json :: "cls \<Rightarrow> json \<Rightarrow> error + key list" where
  "cls_keys_from_json c json =
     (if issubclass c OperatorExpr then
        (case json of
           JDict [] \<Rightarrow> Inl RuntimeError
         | JDict ((k, v) # _) \<Rightarrow>
             Inr (KName k #
                  (case v of JDict ((k2, _) # _) \<Rightarrow> [KName k2] | _ \<Rightarrow> []))
         | _ \<Rightarrow> Inl AttributeError)
      else if c = LiteralC RegexLiteral_c then Inr [KName ''regex'']
      else if c = LiteralC SchemaLiteral_c then Inr [KName ''schema'']
      else if issubclass c LiteralExpr then Inr [KType (type_of json)]
      else (case json of
              JDict _ \<Rightarrow> Inr [KName ''operator_expr'']
            | _ \<Rightarrow> Inr [KName ''literal'']))"

text \<open>The keyword arguments that \<^verbatim>\<open>init_args_from_json\<close> returns.\<close>

datatype kwargs =
    Kw_literal json
  | Kw_operand json
  | Kw_left_right json json
  | Kw_exprs json

text \<open>
  \<^verbatim>\<open>subcls.init_args_from_json(json)\<close>; \<open>Inr None\<close> is the result \<^verbatim>\<open>None\<close> (the metaclass's
  default, or a caught \<^verbatim>\<open>StopIteration\<close>).
\<close>

definition init_args_from_json :: "cls \<Rightarrow> json \<Rightarrow> error + kwargs option" where
  "init_args_from_json c json =
     (if issubclass c LiteralExpr then Inr (Some (Kw_literal json))
      else if issubclass c UnaryBooleanExpr then
        (case json of
           JDict [] \<Rightarrow> Inr None
         | JDict ((_, v) # _) \<Rightarrow> Inr (Some (Kw_operand v))
         | _ \<Rightarrow> Inl AttributeError)
      else if issubclass c BinaryBooleanExpr then
        (case json of
           JDict [] \<Rightarrow> Inr None
         | JDict ((left, right_expr) # _) \<Rightarrow>
             (case right_expr of
                JDict [] \<Rightarrow> Inr None
              | JDict ((op, right) # _) \<Rightarrow> Inr (Some (Kw_left_right (JStr left) right))
              | _ \<Rightarrow> Inl AttributeError)
         | _ \<Rightarrow> Inl AttributeError)
      else if issubclass c LogicalExpr then
        (case json of
           JDict [] \<Rightarrow> Inr None
         | JDict ((_, v) # _) \<Rightarrow> Inr (Some (Kw_exprs v))
         | _ \<Rightarrow> Inl AttributeError)
      else Inr None)"

section \<open>Construction\<close>

text \<open>
  \<^verbatim>\<open>LiteralExpr.__init__\<close> for each final literal class. When \<^verbatim>\<open>validate_literal\<close> fails, the
  message is formatted with \<^verbatim>\<open>self.key.__name__\<close>; for \<^verbatim>\<open>RegexLiteral\<close> and \<^verbatim>\<open>SchemaLiteral\<close>
  the key is a string, which has no \<^verbatim>\<open>__name__\<close>, so \<^verbatim>\<open>AttributeError\<close> is raised instead
  of \<^verbatim>\<open>InvalidQuery\<close>.
\<close>

definition LiteralExpr_init :: "literal_cls \<Rightarrow> json \<Rightarrow> error + literal" where
  "LiteralExpr_init k literal =
     (case (k, literal) of
        (StringLiteral_c, JStr s) \<Rightarrow> Inr (StringLiteral s)
      | (BooleanLiteral_c, JBool b) \<Rightarrow> Inr (BooleanLiteral b)
      | (IntLiteral_c, JInt i) \<Rightarrow> Inr (IntLiteral (IntVal i))
      | (IntLiteral_c, JBool b) \<Rightarrow> Inr (IntLiteral (BoolVal b))
      | (FloatLiteral_c, JFloat x) \<Rightarrow> Inr (FloatLiteral x)
      | (DateTimeLiteral_c, JDateTime t) \<Rightarrow> Inr (DateTimeLiteral t)
      | (RegexLiteral_c, JStr s) \<Rightarrow> Inr (RegexLiteral s)
      | (SchemaLiteral_c, JStr s) \<Rightarrow> Inr (SchemaLiteral s)
      | (RegexLiteral_c, _) \<Rightarrow> Inl AttributeError
      | (SchemaLiteral_c, _) \<Rightarrow> Inl AttributeError
      | _ \<Rightarrow> Inl (InvalidQuery (Invalid_type_of_literal literal (LiteralC k))))"

text \<open>
  A call that may fail returns \<open>Some (Inl err)\<close> for a raised exception and
  \<open>Some (Inr x)\<close> for a result; \<open>and_then\<close> runs the rest of a function body on the result.
  \<open>None\<close> is explained with \<open>from_json\<close> below.
\<close>

definition and_then :: "(error + 'a) option \<Rightarrow> ('a \<Rightarrow> (error + 'b) option) \<Rightarrow> (error + 'b) option" where
  "and_then m f = (case m of None \<Rightarrow> None | Some (Inl err) \<Rightarrow> Some (Inl err) | Some (Inr x) \<Rightarrow> f x)"

text \<open>The branch \<^verbatim>\<open>if isinstance(json, cls): expr = json\<close> of \<^verbatim>\<open>from_json\<close>.\<close>

definition as_instance :: "json \<Rightarrow> cls \<Rightarrow> expr option" where
  "as_instance json c = (case json of JExpr e \<Rightarrow> if isinstance e c then Some e else None | _ \<Rightarrow> None)"

text \<open>
  The rest of \<^verbatim>\<open>from_json\<close>: an \<^verbatim>\<open>UnrecognizedJsonableClass\<close> is caught and, being no
  instance of \<^verbatim>\<open>cls\<close>, becomes \<^verbatim>\<open>InvalidQuery\<close>; so does a node of another class.
\<close>

definition expect :: "cls \<Rightarrow> json \<Rightarrow> (error + expr) option \<Rightarrow> (error + expr) option" where
  "expect c json r =
     (case r of
        None \<Rightarrow> None
      | Some (Inl err) \<Rightarrow>
          if err = UnrecognizedJsonableClass
          then Some (Inl (InvalidQuery (Unexpected_expression_type json c)))
          else Some (Inl err)
      | Some (Inr e) \<Rightarrow>
          if isinstance e c then Some (Inr e)
          else Some (Inl (InvalidQuery (Unexpected_expression_type json c))))"

text \<open>\<^verbatim>\<open>except (KeyError, UnrecognizedExprType): pass\<close> in the metaclass's \<^verbatim>\<open>new_from_json\<close>.\<close>

definition caught :: "(error + expr) option \<Rightarrow> bool" where
  "caught r = (r = Some (Inl KeyError) \<or> r = Some (Inl UnrecognizedExprType))"

text \<open>
  The end of the constructors of the binary classes, once \<^verbatim>\<open>from_json\<close> has built
  \<^verbatim>\<open>self.left\<close> and \<^verbatim>\<open>self.right\<close>. \<^verbatim>\<open>from_json\<close> checks \<^verbatim>\<open>isinstance\<close> before it returns, so
  \<^verbatim>\<open>left\<close> is a \<^verbatim>\<open>SchemaLiteral\<close> and \<^verbatim>\<open>right\<close> a literal (a \<^verbatim>\<open>RegexLiteral\<close> for the regex
  classes): the cases with \<open>TypeError\<close> are not reachable from \<open>init\<close>. \<^verbatim>\<open>Null\<close> and
  \<^verbatim>\<open>Missing\<close> raise \<^verbatim>\<open>InvalidQuery\<close> unless \<^verbatim>\<open>self.right\<close> is a \<^verbatim>\<open>BooleanLiteral\<close>.
\<close>

definition Compare_new :: "compare_cls \<Rightarrow> expr \<Rightarrow> expr \<Rightarrow> (error + expr) option" where
  "Compare_new k l r =
     (case (l, r) of
        (Literal (SchemaLiteral s), Literal lit) \<Rightarrow> Some (Inr (Compare k s lit))
      | _ \<Rightarrow> Some (Inl TypeError))"

definition RegexMatch_new :: "regex_cls \<Rightarrow> expr \<Rightarrow> expr \<Rightarrow> (error + expr) option" where
  "RegexMatch_new k l r =
     (case (l, r) of
        (Literal (SchemaLiteral s), Literal (RegexLiteral p)) \<Rightarrow> Some (Inr (RegexMatch k s p))
      | _ \<Rightarrow> Some (Inl TypeError))"

definition NullTest_new :: "null_cls \<Rightarrow> expr \<Rightarrow> expr \<Rightarrow> (error + expr) option" where
  "NullTest_new k l r =
     (case (l, r) of
        (Literal (SchemaLiteral s), Literal (BooleanLiteral b)) \<Rightarrow> Some (Inr (NullTest k s b))
      | (Literal (SchemaLiteral s), _) \<Rightarrow>
          Some (Inl (InvalidQuery (Operand_not_boolean (cls_key (NullC k)))))
      | _ \<Rightarrow> Some (Inl TypeError))"

text \<open>
  \<^verbatim>\<open>Expr.from_json\<close>; \<^verbatim>\<open>new_from_json\<close> (the class method of \<^verbatim>\<open>OperatorExpr\<close>, which
  normalizes first, for the operator classes; the metaclass's method for the others) with
  the metaclass's loop over the candidate keys (\<open>try_keys\<close>); the constructors
  \<^verbatim>\<open>subcls(**kwargs)\<close> (\<open>init\<close>); and the comprehension
  \<^verbatim>\<open>[BooleanExpr.from_json(e) for e in exprs]\<close> (\<open>from_json_each\<close>). A constructor calls
  \<^verbatim>\<open>from_json\<close> on its arguments, which normalizes them again, so the recursion is not on
  the structure of the input: the first argument bounds the depth of nested
  \<^verbatim>\<open>new_from_json\<close> calls, and \<open>None\<close> means that the bound was reached.

  In the metaclass's \<^verbatim>\<open>new_from_json\<close> the test \<^verbatim>\<open>subcls.new_from_json is cls.new_from_json\<close>
  compares two bound-method objects, each made by its own attribute access, so it is
  always false and a class that is not final is asked for its \<^verbatim>\<open>new_from_json\<close>.
  Keyword arguments that a constructor does not take are a \<^verbatim>\<open>TypeError\<close>.
\<close>

function from_json :: "nat \<Rightarrow> cls \<Rightarrow> json \<Rightarrow> (error + expr) option"
  and new_from_json :: "nat \<Rightarrow> cls \<Rightarrow> json \<Rightarrow> (error + expr) option"
  and try_keys :: "nat \<Rightarrow> cls \<Rightarrow> json \<Rightarrow> key list \<Rightarrow> (error + expr) option"
  and init :: "nat \<Rightarrow> cls \<Rightarrow> kwargs \<Rightarrow> (error + expr) option"
  and from_json_each :: "nat \<Rightarrow> json list \<Rightarrow> (error + expr list) option"
where
  "from_json n c json =
     expect c json
       (case as_instance json c of
          Some e \<Rightarrow> Some (Inr e)
        | None \<Rightarrow> new_from_json n c json)"
| "new_from_json 0 c json = None"
| "new_from_json (Suc n) c json =
     (if issubclass c OperatorExpr then
        (case normalize_eval_expr_dict json of
           Inl err \<Rightarrow> Some (Inl err)
         | Inr json' \<Rightarrow>
             (case cls_keys_from_json c json' of
                Inl err \<Rightarrow> Some (Inl err)
              | Inr keys \<Rightarrow> try_keys n c json' keys))
      else
        (case cls_keys_from_json c json of
           Inl err \<Rightarrow> Some (Inl err)
         | Inr keys \<Rightarrow> try_keys n c json keys))"
| "try_keys n c json [] = Some (Inl UnrecognizedJsonableClass)"
| "try_keys n c json (k # ks) =
     (case subclasses c k of
        None \<Rightarrow> try_keys n c json ks
      | Some subcls \<Rightarrow>
          (let r =
             (if final subcls then
                (case init_args_from_json subcls json of
                   Inl err \<Rightarrow> Some (Inl err)
                 | Inr None \<Rightarrow> Some (Inl UnrecognizedJsonableClass)
                 | Inr (Some kw) \<Rightarrow> init n subcls kw)
              else new_from_json n subcls json)
           in if caught r then try_keys n c json ks else r))"
| "init n c kw =
     (case (c, kw) of
        (LiteralC k, Kw_literal literal) \<Rightarrow>
          (case LiteralExpr_init k literal of
             Inl err \<Rightarrow> Some (Inl err)
           | Inr l \<Rightarrow> Some (Inr (Literal l)))
      | (Not_c, Kw_operand operand) \<Rightarrow>
          and_then (from_json n BooleanExpr operand) (\<lambda>e. Some (Inr (Not_expr e)))
      | (CompareC k, Kw_left_right left right) \<Rightarrow>
          and_then (from_json n (LiteralC SchemaLiteral_c) left) (\<lambda>l.
          and_then (from_json n LiteralExpr right) (\<lambda>r.
            Compare_new k l r))
      | (RegexC k, Kw_left_right left right) \<Rightarrow>
          and_then (from_json n (LiteralC SchemaLiteral_c) left) (\<lambda>l.
          and_then (from_json n LiteralExpr right) (\<lambda>_.
          and_then (from_json n (LiteralC RegexLiteral_c) right) (\<lambda>r.
            RegexMatch_new k l r)))
      | (NullC k, Kw_left_right left right) \<Rightarrow>
          and_then (from_json n (LiteralC SchemaLiteral_c) left) (\<lambda>l.
          and_then (from_json n LiteralExpr right) (\<lambda>r.
            NullTest_new k l r))
      | (LogicalC k, Kw_exprs exprs) \<Rightarrow>
          (case exprs of
             JList es \<Rightarrow>
               and_then (from_json_each n es) (\<lambda>xs. Some (Inr (Logical k xs)))
           | _ \<Rightarrow> Some (Inl (InvalidQuery (Not_applied_on_list (cls_key (LogicalC k))))))
      | _ \<Rightarrow> Some (Inl TypeError))"
| "from_json_each n [] = Some (Inr [])"
| "from_json_each n (e # es) =
     and_then (from_json n BooleanExpr e) (\<lambda>x.
     and_then (from_json_each n es) (\<lambda>xs. Some (Inr (x # xs))))"
  by pat_completeness auto
termination
  by (relation "measures [
        (\<lambda>x. case x of
           Inl (Inl (n, _)) \<Rightarrow> n | Inl (Inr (n, _)) \<Rightarrow> n
         | Inr (Inl (n, _)) \<Rightarrow> n | Inr (Inr (Inl (n, _))) \<Rightarrow> n | Inr (Inr (Inr (n, _))) \<Rightarrow> n),
        (\<lambda>x. case x of
           Inl (Inl _) \<Rightarrow> 1 | Inl (Inr _) \<Rightarrow> 0
         | Inr (Inl _) \<Rightarrow> 4 | Inr (Inr (Inl _)) \<Rightarrow> 3 | Inr (Inr (Inr _)) \<Rightarrow> 2),
        (\<lambda>x. case x of
           Inl _ \<Rightarrow> 0
         | Inr (Inl (_, _, _, ks)) \<Rightarrow> length ks
         | Inr (Inr (Inl _)) \<Rightarrow> 0 | Inr (Inr (Inr (_, es))) \<Rightarrow> length es)]")
     auto

section \<open>Rendering\<close>

text \<open>
  Three functions of Python's library that the renderers call, taken as parameters:
  \<^verbatim>\<open>repr\<close> of a float, \<^verbatim>\<open>'{:fmt}'.format\<close> of a timestamp, and whether \<^verbatim>\<open>re.compile\<close>
  accepts a pattern (it raises \<^verbatim>\<open>re.error\<close> otherwise).
\<close>

record pylib =
  float_repr :: "pyfloat \<Rightarrow> string"
  format_datetime :: "string \<Rightarrow> pydatetime \<Rightarrow> string"
  re_compiles :: "string \<Rightarrow> bool"

text \<open>
  What \<^verbatim>\<open>to_query_mongo\<close> returns: Python values again, with \<^verbatim>\<open>None\<close> and compiled
  patterns (\<open>MRegex p\<close> is \<^verbatim>\<open>re.compile(p)\<close>).
\<close>

datatype mongo =
    MStr string
  | MBool bool
  | MInt int
  | MFloat pyfloat
  | MDateTime pydatetime
  | MRegex string
  | MNone
  | MList "mongo list"
  | MDict "(mongo \<times> mongo) list"

text \<open>
  The class attributes \<^verbatim>\<open>operator_influx\<close>, \<^verbatim>\<open>operator_mysql\<close>, \<^verbatim>\<open>operator_mongo\<close> and
  \<^verbatim>\<open>operator_pandas\<close>; \<open>None\<close> where a class inherits \<^verbatim>\<open>None\<close> from \<^verbatim>\<open>OperatorExpr\<close>.
\<close>

fun operator_influx :: "cls \<Rightarrow> string option" where
  "operator_influx (CompareC Equal) = Some ''=''"
| "operator_influx (CompareC NotEqual) = Some ''!=''"
| "operator_influx (CompareC GreaterThan) = Some ''>''"
| "operator_influx (CompareC GreaterThanOrEqual) = Some ''>=''"
| "operator_influx (CompareC LessThan) = Some ''<''"
| "operator_influx (CompareC LessThanOrEqual) = Some ''<=''"
| "operator_influx (RegexC MatchRegex) = Some ''=~''"
| "operator_influx (RegexC InverseMatchRegex) = Some ''!~''"
| "operator_influx (LogicalC And) = Some ''AND''"
| "operator_influx (LogicalC Or) = Some ''OR''"
| "operator_influx _ = None"

fun operator_mysql :: "cls \<Rightarrow> string option" where
  "operator_mysql Not_c = Some ''NOT''"
| "operator_mysql (CompareC Equal) = Some ''=''"
| "operator_mysql (CompareC NotEqual) = Some ''<>''"
| "operator_mysql (CompareC GreaterThan) = Some ''>''"
| "operator_mysql (CompareC GreaterThanOrEqual) = Some ''>=''"
| "operator_mysql (CompareC LessThan) = Some ''<''"
| "operator_mysql (CompareC LessThanOrEqual) = Some ''<=''"
| "operator_mysql (RegexC MatchRegex) = Some ''REGEXP''"
| "operator_mysql (RegexC InverseMatchRegex) = Some ''NOT REGEXP''"
| "operator_mysql (LogicalC And) = Some ''AND''"
| "operator_mysql (LogicalC Or) = Some ''OR''"
| "operator_mysql _ = None"

fun operator_mongo :: "cls \<Rightarrow> string option" where
  "operator_mongo Not_c = Some ''$not''"
| "operator_mongo (CompareC Equal) = Some ''$eq''"
| "operator_mongo (CompareC NotEqual) = Some ''$ne''"
| "operator_mongo (CompareC GreaterThan) = Some ''$gt''"
| "operator_mongo (CompareC GreaterThanOrEqual) = Some ''$gte''"
| "operator_mongo (CompareC LessThan) = Some ''$lt''"
| "operator_mongo (CompareC LessThanOrEqual) = Some ''$lte''"
| "operator_mongo (LogicalC And) = Some ''$and''"
| "operator_mongo (LogicalC Or) = Some ''$or''"
| "operator_mongo _ = None"

fun operator_pandas :: "cls \<Rightarrow> string option" where
  "operator_pandas Not_c = Some ''~''"
| "operator_pandas (CompareC Equal) = Some ''==''"
| "operator_pandas (CompareC NotEqual) = Some ''!=''"
| "operator_pandas (CompareC GreaterThan) = Some ''>''"
| "operator_pandas (CompareC GreaterThanOrEqual) = Some ''>=''"
| "operator_pandas (CompareC LessThan) = Some ''<''"
| "operator_pandas (CompareC LessThanOrEqual) = Some ''<=''"
| "operator_pandas (LogicalC And) = Some ''&''"
| "operator_pandas (LogicalC Or) = Some ''|''"
| "operator_pandas _ = None"

text \<open>The quotation marks that the literals are wrapped in.\<close>

definition single_quoted :: "string \<Rightarrow> string" where
  "single_quoted s = [CHR 0x27] @ s @ [CHR 0x27]"

definition double_quoted :: "string \<Rightarrow> string" where
  "double_quoted s = [CHR 0x22] @ s @ [CHR 0x22]"

text \<open>
  The renderers of the literal classes. A class without a renderer for a target inherits
  the one of \<^verbatim>\<open>Query\<close>, which raises \<^verbatim>\<open>NotImplementedError\<close>.
\<close>

fun literal_to_query_influx :: "pylib \<Rightarrow> literal \<Rightarrow> error + string" where
  "literal_to_query_influx L (StringLiteral s) = Inr (single_quoted s)"
| "literal_to_query_influx L (BooleanLiteral b) = Inr (repr_bool b)"
| "literal_to_query_influx L (IntLiteral i) = Inr (repr_intlit i)"
| "literal_to_query_influx L (FloatLiteral x) = Inr (float_repr L x)"
| "literal_to_query_influx L (DateTimeLiteral t) =
     Inr (single_quoted (format_datetime L ''%Y-%m-%dT%H:%M:%SZ'' t))"
| "literal_to_query_influx L (RegexLiteral s) = Inr (''/'' @ s @ ''/'')"
| "literal_to_query_influx L (SchemaLiteral s) = Inr (double_quoted s)"

fun literal_to_query_mysql :: "pylib \<Rightarrow> literal \<Rightarrow> error + string" where
  "literal_to_query_mysql L (StringLiteral s) = Inr (single_quoted s)"
| "literal_to_query_mysql L (BooleanLiteral b) = Inr (repr_bool b)"
| "literal_to_query_mysql L (IntLiteral i) = Inr (repr_intlit i)"
| "literal_to_query_mysql L (FloatLiteral x) = Inr (float_repr L x)"
| "literal_to_query_mysql L (DateTimeLiteral t) =
     Inr (single_quoted (format_datetime L ''%Y-%m-%d %H:%M:%S'' t))"
| "literal_to_query_mysql L (RegexLiteral s) = Inr (single_quoted s)"
| "literal_to_query_mysql L (SchemaLiteral s) = Inr s"

fun literal_to_query_mongo :: "pylib \<Rightarrow> literal \<Rightarrow> error + mongo" where
  "literal_to_query_mongo L (StringLiteral s) = Inr (MStr s)"
| "literal_to_query_mongo L (BooleanLiteral b) = Inr (MBool b)"
| "literal_to_query_mongo L (IntLiteral (IntVal i)) = Inr (MInt i)"
| "literal_to_query_mongo L (IntLiteral (BoolVal b)) = Inr (MBool b)"
| "literal_to_query_mongo L (FloatLiteral x) = Inr (MFloat x)"
| "literal_to_query_mongo L (DateTimeLiteral t) = Inr (MDateTime t)"
| "literal_to_query_mongo L (RegexLiteral s) =
     (if re_compiles L s then Inr (MRegex s) else Inl re_error)"
| "literal_to_query_mongo L (SchemaLiteral s) = Inr (MStr s)"

fun literal_to_query_pandas :: "pylib \<Rightarrow> literal \<Rightarrow> error + string" where
  "literal_to_query_pandas L (StringLiteral s) = Inr (single_quoted s)"
| "literal_to_query_pandas L (BooleanLiteral b) = Inr (repr_bool b)"
| "literal_to_query_pandas L (IntLiteral i) = Inr (repr_intlit i)"
| "literal_to_query_pandas L (FloatLiteral x) = Inr (float_repr L x)"
| "literal_to_query_pandas L (DateTimeLiteral t) = Inl NotImplementedError"
| "literal_to_query_pandas L (RegexLiteral s) = Inl NotImplementedError"
| "literal_to_query_pandas L (SchemaLiteral s) = Inr s"

text \<open>
  The renderers of \<^verbatim>\<open>BinaryBooleanExpr\<close>, which \<^verbatim>\<open>'{} {} {}'.format\<close> the left fragment, the
  operator attribute of the class and the right fragment.
\<close>

definition format_binary :: "error + string \<Rightarrow> string option \<Rightarrow> error + string \<Rightarrow> error + string" where
  "format_binary left op right =
     (case left of
        Inl err \<Rightarrow> Inl err
      | Inr l \<Rightarrow>
          (case right of
             Inl err \<Rightarrow> Inl err
           | Inr r \<Rightarrow> Inr (format3 l (format_operator op) r)))"

definition BinaryBooleanExpr_to_query_influx :: "pylib \<Rightarrow> cls \<Rightarrow> literal \<Rightarrow> literal \<Rightarrow> error + string" where
  "BinaryBooleanExpr_to_query_influx L c left right =
     format_binary (literal_to_query_influx L left) (operator_influx c)
       (literal_to_query_influx L right)"

definition BinaryBooleanExpr_to_query_mysql :: "pylib \<Rightarrow> cls \<Rightarrow> literal \<Rightarrow> literal \<Rightarrow> error + string" where
  "BinaryBooleanExpr_to_query_mysql L c left right =
     format_binary (literal_to_query_mysql L left) (operator_mysql c)
       (literal_to_query_mysql L right)"

definition BinaryBooleanExpr_to_query_pandas :: "pylib \<Rightarrow> cls \<Rightarrow> literal \<Rightarrow> literal \<Rightarrow> error + string" where
  "BinaryBooleanExpr_to_query_pandas L c left right =
     format_binary (literal_to_query_pandas L left) (operator_pandas c)
       (literal_to_query_pandas L right)"

text \<open>A dictionary key that is an operator attribute.\<close>

fun operator_key :: "string option \<Rightarrow> mongo" where
  "operator_key None = MNone"
| "operator_key (Some s) = MStr s"

definition BinaryBooleanExpr_to_query_mongo :: "pylib \<Rightarrow> cls \<Rightarrow> literal \<Rightarrow> literal \<Rightarrow> error + mongo" where
  "BinaryBooleanExpr_to_query_mongo L c left right =
     (case literal_to_query_mongo L left of
        Inl err \<Rightarrow> Inl err
      | Inr l \<Rightarrow>
          (case literal_to_query_mongo L right of
             Inl err \<Rightarrow> Inl err
           | Inr r \<Rightarrow> Inr (MDict [(l, MDict [(operator_key (operator_mongo c), r)])])))"

text \<open>\<^verbatim>\<open>'(' + fragment + ')'\<close> and the separator \<^verbatim>\<open>' {} '.format(operator)\<close> of \<^verbatim>\<open>LogicalExpr\<close>.\<close>

definition parenthesized :: "string \<Rightarrow> string" where
  "parenthesized s = ''('' @ s @ '')''"

definition separator :: "string option \<Rightarrow> string" where
  "separator op = '' '' @ format_operator op @ '' ''"

text \<open>
  \<^verbatim>\<open>sep.join(sorted('(' + e.to_query() + ')' for e in self.exprs))\<close>, given the fragments of
  the children. Python compares strings by code point, which is the order of
  \<^typ>\<open>string\<close> here.
\<close>

definition join_sorted :: "string option \<Rightarrow> string list \<Rightarrow> string" where
  "join_sorted op fragments = join (separator op) (sort (map parenthesized fragments))"

text \<open>
  \<^verbatim>\<open>to_query_influx\<close>. \<^verbatim>\<open>Not\<close> has no renderer for this target; \<^verbatim>\<open>Null\<close> and \<^verbatim>\<open>Missing\<close>
  inherit the one of \<^verbatim>\<open>BinaryBooleanExpr\<close> and have no operator.
\<close>

fun to_query_influx :: "pylib \<Rightarrow> expr \<Rightarrow> error + string"
  and to_query_influx_each :: "pylib \<Rightarrow> expr list \<Rightarrow> error + string list"
where
  "to_query_influx L (Literal l) = literal_to_query_influx L l"
| "to_query_influx L (Not_expr e) = Inl NotImplementedError"
| "to_query_influx L (Compare k left right) =
     BinaryBooleanExpr_to_query_influx L (CompareC k) (SchemaLiteral left) right"
| "to_query_influx L (RegexMatch k left right) =
     BinaryBooleanExpr_to_query_influx L (RegexC k) (SchemaLiteral left) (RegexLiteral right)"
| "to_query_influx L (NullTest k left right) =
     BinaryBooleanExpr_to_query_influx L (NullC k) (SchemaLiteral left) (BooleanLiteral right)"
| "to_query_influx L (Logical k es) =
     (case to_query_influx_each L es of
        Inl err \<Rightarrow> Inl err
      | Inr fragments \<Rightarrow> Inr (join_sorted (operator_influx (LogicalC k)) fragments))"
| "to_query_influx_each L [] = Inr []"
| "to_query_influx_each L (e # es) =
     (case to_query_influx L e of
        Inl err \<Rightarrow> Inl err
      | Inr x \<Rightarrow>
          (case to_query_influx_each L es of
             Inl err \<Rightarrow> Inl err
           | Inr xs \<Rightarrow> Inr (x # xs)))"

text \<open>\<^verbatim>\<open>to_query_mysql\<close>. \<^verbatim>\<open>Null\<close> has its own renderer, \<^verbatim>\<open>Missing\<close> inherits.\<close>

fun to_query_mysql :: "pylib \<Rightarrow> expr \<Rightarrow> error + string"
  and to_query_mysql_each :: "pylib \<Rightarrow> expr list \<Rightarrow> error + string list"
where
  "to_query_mysql L (Literal l) = literal_to_query_mysql L l"
| "to_query_mysql L (Not_expr e) =
     (case to_query_mysql L e of
        Inl err \<Rightarrow> Inl err
      | Inr x \<Rightarrow> Inr (format_operator (operator_mysql Not_c) @ '' ('' @ x @ '')''))"
| "to_query_mysql L (Compare k left right) =
     BinaryBooleanExpr_to_query_mysql L (CompareC k) (SchemaLiteral left) right"
| "to_query_mysql L (RegexMatch k left right) =
     BinaryBooleanExpr_to_query_mysql L (RegexC k) (SchemaLiteral left) (RegexLiteral right)"
| "to_query_mysql L (NullTest Null left right) =
     (case literal_to_query_mysql L (SchemaLiteral left) of
        Inl err \<Rightarrow> Inl err
      | Inr l \<Rightarrow> Inr (l @ '' '' @ (if right then ''is NULL'' else ''is NOT NULL'')))"
| "to_query_mysql L (NullTest Missing left right) =
     BinaryBooleanExpr_to_query_mysql L (NullC Missing) (SchemaLiteral left) (BooleanLiteral right)"
| "to_query_mysql L (Logical k es) =
     (case to_query_mysql_each L es of
        Inl err \<Rightarrow> Inl err
      | Inr fragments \<Rightarrow> Inr (join_sorted (operator_mysql (LogicalC k)) fragments))"
| "to_query_mysql_each L [] = Inr []"
| "to_query_mysql_each L (e # es) =
     (case to_query_mysql L e of
        Inl err \<Rightarrow> Inl err
      | Inr x \<Rightarrow>
          (case to_query_mysql_each L es of
             Inl err \<Rightarrow> Inl err
           | Inr xs \<Rightarrow> Inr (x # xs)))"

text \<open>
  \<^verbatim>\<open>to_query_pandas\<close>. \<^verbatim>\<open>Null\<close> has its own renderer; the regex classes and \<^verbatim>\<open>Missing\<close>
  inherit the one of \<^verbatim>\<open>BinaryBooleanExpr\<close>.
\<close>

fun to_query_pandas :: "pylib \<Rightarrow> expr \<Rightarrow> error + string"
  and to_query_pandas_each :: "pylib \<Rightarrow> expr list \<Rightarrow> error + string list"
where
  "to_query_pandas L (Literal l) = literal_to_query_pandas L l"
| "to_query_pandas L (Not_expr e) =
     (case to_query_pandas L e of
        Inl err \<Rightarrow> Inl err
      | Inr x \<Rightarrow> Inr (format_operator (operator_pandas Not_c) @ ''('' @ x @ '')''))"
| "to_query_pandas L (Compare k left right) =
     BinaryBooleanExpr_to_query_pandas L (CompareC k) (SchemaLiteral left) right"
| "to_query_pandas L (RegexMatch k left right) =
     BinaryBooleanExpr_to_query_pandas L (RegexC k) (SchemaLiteral left) (RegexLiteral right)"
| "to_query_pandas L (NullTest Null left right) =
     (case literal_to_query_pandas L (SchemaLiteral left) of
        Inl err \<Rightarrow> Inl err
      | Inr l \<Rightarrow> Inr ((if right then [] else ''~'') @ ''pandas.isnull('' @ l @ '')''))"
| "to_query_pandas L (NullTest Missing left right) =
     BinaryBooleanExpr_to_query_pandas L (NullC Missing) (SchemaLiteral left) (BooleanLiteral right)"
| "to_query_pandas L (Logical k es) =
     (case to_query_pandas_each L es of
        Inl err \<Rightarrow> Inl err
      | Inr fragments \<Rightarrow> Inr (join_sorted (operator_pandas (LogicalC k)) fragments))"
| "to_query_pandas_each L [] = Inr []"
| "to_query_pandas_each L (e # es) =
     (case to_query_pandas L e of
        Inl err \<Rightarrow> Inl err
      | Inr x \<Rightarrow>
          (case to_query_pandas_each L es of
             Inl err \<Rightarrow> Inl err
           | Inr xs \<Rightarrow> Inr (x # xs)))"

text \<open>
  \<^verbatim>\<open>Not.to_query_mongo\<close>, given the fragment of the operand:
  \<^verbatim>\<open>k, v = next(iter(tmp_mongo_query.items())); return {k: {self.operator_mongo: v}}\<close>.
\<close>

definition Not_to_query_mongo :: "mongo \<Rightarrow> error + mongo" where
  "Not_to_query_mongo tmp_mongo_query =
     (case tmp_mongo_query of
        MDict [] \<Rightarrow> Inl StopIteration
      | MDict ((k, v) # _) \<Rightarrow> Inr (MDict [(k, MDict [(operator_key (operator_mongo Not_c), v)])])
      | _ \<Rightarrow> Inl AttributeError)"

text \<open>
  \<^verbatim>\<open>to_query_mongo\<close>. The regex classes, \<^verbatim>\<open>Null\<close> and \<^verbatim>\<open>Missing\<close> have their own renderers;
  \<^verbatim>\<open>LogicalExpr\<close> renders its children in the order of \<^verbatim>\<open>self.exprs\<close>.
\<close>

fun to_query_mongo :: "pylib \<Rightarrow> expr \<Rightarrow> error + mongo"
  and to_query_mongo_each :: "pylib \<Rightarrow> expr list \<Rightarrow> error + mongo list"
where
  "to_query_mongo L (Literal l) = literal_to_query_mongo L l"
| "to_query_mongo L (Not_expr e) =
     (case to_query_mongo L e of
        Inl err \<Rightarrow> Inl err
      | Inr tmp_mongo_query \<Rightarrow> Not_to_query_mongo tmp_mongo_query)"
| "to_query_mongo L (Compare k left right) =
     BinaryBooleanExpr_to_query_mongo L (CompareC k) (SchemaLiteral left) right"
| "to_query_mongo L (RegexMatch MatchRegex left right) =
     (case literal_to_query_mongo L (SchemaLiteral left) of
        Inl err \<Rightarrow> Inl err
      | Inr l \<Rightarrow>
          (case literal_to_query_mongo L (RegexLiteral right) of
             Inl err \<Rightarrow> Inl err
           | Inr r \<Rightarrow> Inr (MDict [(l, r)])))"
| "to_query_mongo L (RegexMatch InverseMatchRegex left right) =
     (case literal_to_query_mongo L (SchemaLiteral left) of
        Inl err \<Rightarrow> Inl err
      | Inr l \<Rightarrow>
          (case literal_to_query_mongo L (RegexLiteral right) of
             Inl err \<Rightarrow> Inl err
           | Inr r \<Rightarrow> Inr (MDict [(l, MDict [(MStr ''$not'', r)])])))"
| "to_query_mongo L (NullTest Null left right) =
     (case literal_to_query_mongo L (SchemaLiteral left) of
        Inl err \<Rightarrow> Inl err
      | Inr l \<Rightarrow> Inr (MDict [(l, MDict [(MStr (if right then ''$eq'' else ''$ne''), MNone)])]))"
| "to_query_mongo L (NullTest Missing left right) =
     (case literal_to_query_mongo L (SchemaLiteral left) of
        Inl err \<Rightarrow> Inl err
      | Inr l \<Rightarrow> Inr (MDict [(l, MDict [(MStr ''$exists'', MInt (if right then 1 else - 1))])]))"
| "to_query_mongo L (Logical k es) =
     (case to_query_mongo_each L es of
        Inl err \<Rightarrow> Inl err
      | Inr fragments \<Rightarrow>
          Inr (MDict [(operator_key (operator_mongo (LogicalC k)), MList fragments)]))"
| "to_query_mongo_each L [] = Inr []"
| "to_query_mongo_each L (e # es) =
     (case to_query_mongo L e of
        Inl err \<Rightarrow> Inl err
      | Inr x \<Rightarrow>
          (case to_query_mongo_each L es of
             Inl err \<Rightarrow> Inl err
           | Inr xs \<Rightarrow> Inr (x # xs)))"

text \<open>
  A library for the examples below, none of which renders a float, a timestamp or a
  pattern.
\<close>

definition example_lib :: pylib where
  "example_lib = \<lparr>float_repr = (\<lambda>_. ''0.0''), format_datetime = (\<lambda>_ _. ''''), re_compiles = (\<lambda>_. True)\<rparr>"

section \<open>Two classes of filters\<close>

text \<open>
  A filter is \<open>regular\<close> when the key \<^verbatim>\<open>__not__\<close> is bound to mappings only, and every list
  that the normalizer expands into per-element equalities (a list bound to a key other
  than \<^verbatim>\<open>__and__\<close> and \<^verbatim>\<open>__or__\<close>, or to the operator \<^verbatim>\<open>__in__\<close>) holds scalars only.
  Nothing is asked of the values that the normalizer rejects.
\<close>

fun regular :: "json \<Rightarrow> bool"
  and regular_items :: "(string \<times> json) list \<Rightarrow> bool"
  and regular_each :: "json list \<Rightarrow> bool"
where
  "regular (JDict items) = regular_items items"
| "regular (JStr v) = True"
| "regular (JBool v) = True"
| "regular (JInt v) = True"
| "regular (JFloat v) = True"
| "regular (JDateTime v) = True"
| "regular JNone = True"
| "regular (JList v) = True"
| "regular (JExpr v) = True"
| "regular_items [] = True"
| "regular_items ((tag, JList cs) # rest) =
     ((if tag = ''__and__'' \<or> tag = ''__or__'' then regular_each cs
       else tag \<noteq> ''__not__'' \<and> list_all is_scalar cs)
      \<and> regular_items rest)"
| "regular_items ((tag, JDict d) # rest) =
     ((if tag = ''__not__'' then regular (JDict d)
       else list_all (\<lambda>(op, c). case c of JList vs \<Rightarrow> list_all is_scalar vs | _ \<Rightarrow> True) d)
      \<and> regular_items rest)"
| "regular_items ((tag, JStr v) # rest) = (tag \<noteq> ''__not__'' \<and> regular_items rest)"
| "regular_items ((tag, JBool v) # rest) = (tag \<noteq> ''__not__'' \<and> regular_items rest)"
| "regular_items ((tag, JInt v) # rest) = (tag \<noteq> ''__not__'' \<and> regular_items rest)"
| "regular_items ((tag, JFloat v) # rest) = (tag \<noteq> ''__not__'' \<and> regular_items rest)"
| "regular_items ((tag, JDateTime v) # rest) = regular_items rest"
| "regular_items ((tag, JNone) # rest) = regular_items rest"
| "regular_items ((tag, JExpr v) # rest) = regular_items rest"
| "regular_each [] = True"
| "regular_each (c # cs) = (regular c \<and> regular_each cs)"

text \<open>
  The canonical form: the empty mapping, \<^verbatim>\<open>{field: {operator: scalar}}\<close> with a field
  other than \<^verbatim>\<open>__not__\<close>, \<^verbatim>\<open>{'__not__': c}\<close>, \<^verbatim>\<open>{'__or__': [c, ...]}\<close>, and
  \<^verbatim>\<open>{'__and__': [c, c, ...]}\<close> with at least two elements, each \<^verbatim>\<open>c\<close> canonical.
\<close>

fun canonical :: "json \<Rightarrow> bool"
  and canonical_each :: "json list \<Rightarrow> bool"
where
  "canonical (JDict []) = True"
| "canonical (JDict [(tag, JList cs)]) =
     ((tag = ''__or__'' \<or> tag = ''__and__'' \<and> length cs > 1) \<and> canonical_each cs)"
| "canonical (JDict [(tag, JDict d)]) =
     (if tag = ''__not__'' then canonical (JDict d)
      else length d = 1 \<and> is_scalar (snd (hd d)))"
| "canonical (JDict _) = False"
| "canonical _ = False"
| "canonical_each [] = True"
| "canonical_each (c # cs) = (canonical c \<and> canonical_each cs)"

section \<open>Properties of the normalizer\<close>

lemma canonical_fixed:
  "canonical g \<Longrightarrow> normalize_eval_expr_dict g = Inr g"
  "canonical_each cs \<Longrightarrow> normalize_each cs = Inr cs"
proof (induction g and cs rule: canonical_canonical_each.induct)
  case (3 tag d)
  show ?case
  proof (cases "tag = ''__not__''")
    case True
    with 3 show ?thesis by simp
  next
    case False
    with "3.prems" obtain op c where d: "d = [(op, c)]" and c: "is_scalar c"
      by (cases d) auto
    from False d c show ?thesis
      by (simp add: condition_dict_def)
  qed
qed (auto split: if_splits)

lemma canonical_each_append:
  "canonical_each (xs @ ys) = (canonical_each xs \<and> canonical_each ys)"
  by (induction xs) auto

lemma extend_exprs_Inr:
  "extend_exprs a b = Inr r \<longleftrightarrow> (\<exists>x y. a = Inr x \<and> b = Inr y \<and> r = x @ y)"
  by (cases a; cases b) auto

lemma canonical_each_equalities:
  "tag \<noteq> ''__not__'' \<Longrightarrow> list_all is_scalar vs \<Longrightarrow>
   canonical_each (map (condition_dict tag ''__eq__'') vs)"
  by (induction vs) (auto simp: condition_dict_def)

lemma canonical_or_of_equalities:
  "tag \<noteq> ''__not__'' \<Longrightarrow> list_all is_scalar vs \<Longrightarrow> canonical (or_of_equalities tag vs)"
  by (simp add: or_of_equalities_def canonical_each_equalities)

lemma normalize_conditions_canonical:
  "tag \<noteq> ''__not__'' \<Longrightarrow>
   list_all (\<lambda>(op, c). case c of JList vs \<Rightarrow> list_all is_scalar vs | _ \<Rightarrow> True) d \<Longrightarrow>
   normalize_conditions tag d = Inr es \<Longrightarrow> canonical_each es"
proof (induction d arbitrary: es)
  case Nil
  then show ?case by simp
next
  case (Cons x d)
  obtain op c where x: "x = (op, c)" by (cases x)
  from Cons.prems(3) x obtain e es' where
    e: "(if is_scalar c then Inr (condition_dict tag op c)
         else (case c of
                 JList vs \<Rightarrow>
                   if op = ''__in__'' then Inr (or_of_equalities tag vs)
                   else Inl (InvalidQuery (Operator_on_list op))
               | _ \<Rightarrow> Inl (InvalidQuery (Condition_unrecognized c)))) = Inr e"
    and es': "normalize_conditions tag d = Inr es'" and es: "es = e # es'"
    by (auto split: sum.splits)
  from Cons.prems(1,2) x e have "canonical e"
    by (auto simp: condition_dict_def canonical_or_of_equalities split: if_splits json.splits)
  moreover from Cons.IH Cons.prems(1,2) es' have "canonical_each es'" by simp
  ultimately show ?case using es by simp
qed

lemma canonical_not:
  "canonical n \<Longrightarrow> canonical (JDict [(''__not__'', n)])"
  by (cases n) auto

lemma normalize_canonical:
  "regular j \<Longrightarrow> normalize_eval_expr_dict j = Inr g \<Longrightarrow> canonical g"
  "regular_items items \<Longrightarrow> normalize_items items = Inr exprs \<Longrightarrow> canonical_each exprs"
  "regular_each cs \<Longrightarrow> normalize_each cs = Inr ns \<Longrightarrow> canonical_each ns"
proof (induction j and items and cs arbitrary: g and exprs and ns
       rule: normalize_eval_expr_dict_normalize_items_normalize_each.induct)
  case (1 items)
  from "1.prems"(2) obtain exprs where exprs: "normalize_items items = Inr exprs"
    and g: "g = (if length exprs > 1 then JDict [(''__and__'', JList exprs)]
                 else if length exprs = 1 then hd exprs else JDict [])"
    by (auto split: sum.splits)
  from "1.IH" "1.prems"(1) exprs have c: "canonical_each exprs" by simp
  show ?case
  proof (cases exprs)
    case Nil
    with g show ?thesis by simp
  next
    case (Cons e es)
    with c g show ?thesis by (cases es) auto
  qed
next
  case (15 tag cs rest)
  then show ?case
    by (auto simp: extend_exprs_Inr canonical_each_append canonical_or_of_equalities
             split: if_splits sum.splits)
next
  case (16 tag d rest)
  from "16.prems"(2) obtain new exprs' where
    new: "(if tag = ''__not__'' then
             (case normalize_eval_expr_dict (JDict d) of
                Inl err \<Rightarrow> Inl err
              | Inr n \<Rightarrow> Inr [JDict [(''__not__'', n)]])
           else normalize_conditions tag d) = Inr new"
    and rest: "normalize_items rest = Inr exprs'" and exprs: "exprs = new @ exprs'"
    unfolding normalize_items.simps extend_exprs_Inr by blast
  from "16.prems"(1) "16.IH"(2) rest have "canonical_each exprs'" by simp
  moreover have "canonical_each new"
  proof (cases "tag = ''__not__''")
    case True
    with new obtain n where n: "normalize_eval_expr_dict (JDict d) = Inr n"
      and new': "new = [JDict [(''__not__'', n)]]"
      by (auto split: sum.splits)
    from True "16.prems"(1) have "regular (JDict d)" by simp
    with "16.IH"(1) True n have "canonical n" by blast
    with new' show ?thesis by (simp add: canonical_not del: canonical.simps)
  next
    case False
    with new "16.prems"(1) show ?thesis
      by (auto dest: normalize_conditions_canonical)
  qed
  ultimately show ?case using exprs by (simp add: canonical_each_append)
qed (auto simp: extend_exprs_Inr canonical_each_append condition_dict_def split: if_splits sum.splits)

lemma normalize_each_equalities:
  "tag \<noteq> ''__not__'' \<Longrightarrow> list_all is_scalar vs \<Longrightarrow>
   normalize_each (map (condition_dict tag ''__eq__'') vs) = Inr (map (condition_dict tag ''__eq__'') vs)"
  by (rule canonical_fixed(2)) (rule canonical_each_equalities)

lemma startswith_slash: "startswith (''/'' @ p @ ''/'') ''/''"
  by (simp add: startswith_def)

lemma endswith_slash: "endswith (''/'' @ p @ ''/'') ''/''"
  by (simp add: endswith_def)

lemma slice_slashes: "slice_1_m1 (''/'' @ p @ ''/'') = p"
  by (simp add: slice_1_m1_def butlast_append)

text \<open>
  C3. The empty mapping normalizes to the empty mapping. Whenever normalization of a
  mapping succeeds, the loop has collected a list of entries: more than one entry gives
  the conjunction \<^verbatim>\<open>{'__and__': entries}\<close>, exactly one entry gives that entry alone, and no
  entry gives the empty mapping.
\<close>

theorem normalize_top_level:
  "normalize_eval_expr_dict (JDict []) = Inr (JDict [])
   \<and> (normalize_eval_expr_dict (JDict items) = Inr r \<longrightarrow>
        (\<exists>exprs. normalize_items items = Inr exprs
           \<and> (length exprs > 1 \<longrightarrow> r = JDict [(''__and__'', JList exprs)])
           \<and> (\<forall>e. exprs = [e] \<longrightarrow> r = e)
           \<and> (exprs = [] \<longrightarrow> r = JDict [])))"
  by (auto split: sum.splits)

theorem normalize_top_level_witness:
  "normalize_eval_expr_dict (JDict [(''host'', JStr ''web1''), (''status'', JDict [(''__gt__'', JInt 200)])])
     = Inr (JDict [(''__and__'', JList [JDict [(''host'', JDict [(''__eq__'', JStr ''web1'')])],
                                       JDict [(''status'', JDict [(''__gt__'', JInt 200)])]])])
   \<and> normalize_items [(''host'', JStr ''web1''), (''status'', JDict [(''__gt__'', JInt 200)])]
     = Inr [JDict [(''host'', JDict [(''__eq__'', JStr ''web1'')])],
            JDict [(''status'', JDict [(''__gt__'', JInt 200)])]]
   \<and> normalize_eval_expr_dict (JDict [(''host'', JStr ''web1'')])
     = Inr (JDict [(''host'', JDict [(''__eq__'', JStr ''web1'')])])"
  using normalize_top_level [of "[(''host'', JStr ''web1''), (''status'', JDict [(''__gt__'', JInt 200)])]"
          "JDict [(''__and__'', JList [JDict [(''host'', JDict [(''__eq__'', JStr ''web1'')])],
                                       JDict [(''status'', JDict [(''__gt__'', JInt 200)])]])]"]
  by (simp add: startswith_def endswith_def condition_dict_def)

text \<open>
  C4. For a field name that is none of \<^verbatim>\<open>__and__\<close>, \<^verbatim>\<open>__or__\<close>, \<^verbatim>\<open>__not__\<close> and a list of
  scalars, \<^verbatim>\<open>{tag: [v, ...]}\<close> normalizes to \<^verbatim>\<open>{'__or__': [{tag: {'__eq__': v}}, ...]}\<close>, and
  so do that disjunction itself and \<^verbatim>\<open>{tag: {'__in__': [v, ...]}}\<close>.
\<close>

theorem list_expansion:
  assumes "tag \<notin> {''__and__'', ''__or__'', ''__not__''}" and "\<forall>v \<in> set vs. is_scalar v"
  shows "normalize_eval_expr_dict (JDict [(tag, JList vs)])
           = Inr (JDict [(''__or__'', JList (map (\<lambda>v. JDict [(tag, JDict [(''__eq__'', v)])]) vs))])
         \<and> normalize_eval_expr_dict
             (JDict [(''__or__'', JList (map (\<lambda>v. JDict [(tag, JDict [(''__eq__'', v)])]) vs))])
           = normalize_eval_expr_dict (JDict [(tag, JList vs)])
         \<and> normalize_eval_expr_dict (JDict [(tag, JDict [(''__in__'', JList vs)])])
           = normalize_eval_expr_dict (JDict [(tag, JList vs)])"
proof -
  let ?eqs = "map (\<lambda>v. JDict [(tag, JDict [(''__eq__'', v)])]) vs"
  have eqs: "?eqs = map (condition_dict tag ''__eq__'') vs"
    by (simp add: condition_dict_def)
  from assms have tag: "tag \<noteq> ''__and__''" "tag \<noteq> ''__or__''" "tag \<noteq> ''__not__''"
    and vs: "list_all is_scalar vs"
    by (auto simp: list_all_iff)
  have 1: "normalize_eval_expr_dict (JDict [(tag, JList vs)]) = Inr (JDict [(''__or__'', JList ?eqs)])"
    using tag by (simp add: or_of_equalities_def condition_dict_def)
  have "normalize_each ?eqs = Inr ?eqs"
    unfolding eqs using tag(3) vs by (rule normalize_each_equalities)
  then have 2: "normalize_eval_expr_dict (JDict [(''__or__'', JList ?eqs)])
                  = Inr (JDict [(''__or__'', JList ?eqs)])"
    by simp
  have 3: "normalize_eval_expr_dict (JDict [(tag, JDict [(''__in__'', JList vs)])])
             = Inr (JDict [(''__or__'', JList ?eqs)])"
    using tag by (simp add: or_of_equalities_def condition_dict_def)
  from 1 2 3 show ?thesis by simp
qed

theorem list_expansion_witness:
  "''tag'' \<notin> {''__and__'', ''__or__'', ''__not__''}
   \<and> is_scalar (JStr ''a'') \<and> is_scalar (JStr ''b'')
   \<and> normalize_eval_expr_dict (JDict [(''tag'', JList [JStr ''a'', JStr ''b''])])
       = Inr (JDict [(''__or__'', JList [JDict [(''tag'', JDict [(''__eq__'', JStr ''a'')])],
                                        JDict [(''tag'', JDict [(''__eq__'', JStr ''b'')])]])])
   \<and> normalize_eval_expr_dict
         (JDict [(''__or__'', JList [JDict [(''tag'', JDict [(''__eq__'', JStr ''a'')])],
                                    JDict [(''tag'', JDict [(''__eq__'', JStr ''b'')])]])])
       = normalize_eval_expr_dict (JDict [(''tag'', JList [JStr ''a'', JStr ''b''])])
   \<and> normalize_eval_expr_dict (JDict [(''tag'', JDict [(''__in__'', JList [JStr ''a'', JStr ''b''])])])
       = normalize_eval_expr_dict (JDict [(''tag'', JList [JStr ''a'', JStr ''b''])])"
  using list_expansion [of "''tag''" "[JStr ''a'', JStr ''b'']"] by simp

text \<open>
  C7, as stated, fails: \<^verbatim>\<open>{'__not__': 'x'}\<close> normalizes to \<^verbatim>\<open>{'__not__': {'__eq__': 'x'}}\<close>,
  which normalizes to \<^verbatim>\<open>{'__not__': {'__eq__': {'__eq__': 'x'}}}\<close>; and \<^verbatim>\<open>{'tag': [['a']]}\<close>
  normalizes to \<^verbatim>\<open>{'__or__': [{'tag': {'__eq__': ['a']}}]}\<close>, on which the normalizer raises
  \<^verbatim>\<open>InvalidQuery\<close>.
\<close>

theorem normalize_not_idempotent:
  "normalize_eval_expr_dict (JDict [(''__not__'', JStr ''x'')])
     = Inr (JDict [(''__not__'', JDict [(''__eq__'', JStr ''x'')])])
   \<and> normalize_eval_expr_dict (JDict [(''__not__'', JDict [(''__eq__'', JStr ''x'')])])
     = Inr (JDict [(''__not__'', JDict [(''__eq__'', JDict [(''__eq__'', JStr ''x'')])])])
   \<and> normalize_eval_expr_dict (JDict [(''__not__'', JDict [(''__eq__'', JStr ''x'')])])
     \<noteq> Inr (JDict [(''__not__'', JDict [(''__eq__'', JStr ''x'')])])
   \<and> normalize_eval_expr_dict (JDict [(''tag'', JList [JList [JStr ''a'']])])
     = Inr (JDict [(''__or__'', JList [JDict [(''tag'', JDict [(''__eq__'', JList [JStr ''a''])])]])])
   \<and> normalize_eval_expr_dict
        (JDict [(''__or__'', JList [JDict [(''tag'', JDict [(''__eq__'', JList [JStr ''a''])])]])])
     = Inl (InvalidQuery (Operator_on_list ''__eq__''))"
  by (simp add: startswith_def endswith_def condition_dict_def or_of_equalities_def)

text \<open>
  C7, amended. On a regular filter on which normalization succeeds, normalizing the
  result again returns it unchanged.
\<close>

theorem normalize_idempotent:
  assumes "regular f" and "normalize_eval_expr_dict f = Inr g"
  shows "normalize_eval_expr_dict g = Inr g"
  using assms by (blast intro: canonical_fixed(1) normalize_canonical(1))

theorem normalize_idempotent_witness:
  "regular (JDict [(''host'', JStr ''web1''), (''status'', JDict [(''__gt__'', JInt 200)])])
   \<and> normalize_eval_expr_dict (JDict [(''host'', JStr ''web1''), (''status'', JDict [(''__gt__'', JInt 200)])])
     = Inr (JDict [(''__and__'', JList [JDict [(''host'', JDict [(''__eq__'', JStr ''web1'')])],
                                       JDict [(''status'', JDict [(''__gt__'', JInt 200)])]])])
   \<and> normalize_eval_expr_dict
        (JDict [(''__and__'', JList [JDict [(''host'', JDict [(''__eq__'', JStr ''web1'')])],
                                    JDict [(''status'', JDict [(''__gt__'', JInt 200)])]])])
     = Inr (JDict [(''__and__'', JList [JDict [(''host'', JDict [(''__eq__'', JStr ''web1'')])],
                                       JDict [(''status'', JDict [(''__gt__'', JInt 200)])]])])"
proof -
  let ?f = "JDict [(''host'', JStr ''web1''), (''status'', JDict [(''__gt__'', JInt 200)])]"
  let ?g = "JDict [(''__and__'', JList [JDict [(''host'', JDict [(''__eq__'', JStr ''web1'')])],
                                       JDict [(''status'', JDict [(''__gt__'', JInt 200)])]])]"
  have r: "regular ?f" by simp
  have n: "normalize_eval_expr_dict ?f = Inr ?g"
    by (simp add: startswith_def endswith_def condition_dict_def)
  from r n normalize_idempotent [OF r n] show ?thesis by simp
qed

text \<open>
  C8. A string with a leading and a trailing \<^verbatim>\<open>/\<close> bound to a field normalizes to the
  regex match on the text between them; unless the field is \<^verbatim>\<open>__not__\<close>, that is also what
  \<^verbatim>\<open>{field: {'__regex__': p}}\<close> normalizes to.
\<close>

theorem regex_shorthand:
  "normalize_eval_expr_dict (JDict [(field, JStr (''/'' @ p @ ''/''))])
     = Inr (JDict [(field, JDict [(''__regex__'', JStr p)])])
   \<and> (field \<noteq> ''__not__'' \<longrightarrow>
        normalize_eval_expr_dict (JDict [(field, JStr (''/'' @ p @ ''/''))])
          = normalize_eval_expr_dict (JDict [(field, JDict [(''__regex__'', JStr p)])]))"
  using startswith_slash [of p] endswith_slash [of p]
  by (simp add: slice_slashes condition_dict_def del: append.simps)

theorem regex_shorthand_witness:
  "''f'' \<noteq> ''__not__''
   \<and> normalize_eval_expr_dict (JDict [(''f'', JStr ''/ab+c/'')])
       = Inr (JDict [(''f'', JDict [(''__regex__'', JStr ''ab+c'')])])
   \<and> normalize_eval_expr_dict (JDict [(''f'', JStr ''/ab+c/'')])
       = normalize_eval_expr_dict (JDict [(''f'', JDict [(''__regex__'', JStr ''ab+c'')])])"
  using regex_shorthand [of "''f''" "''ab+c''"]
  by (simp add: startswith_def endswith_def slice_1_m1_def condition_dict_def)

section \<open>Properties of the renderers\<close>

lemma map_Inr_permuted:
  assumes "map f es = map Inr fs" and "mset es' = mset es"
  shows "\<exists>fs'. map f es' = map Inr fs' \<and> mset fs' = mset fs"
proof -
  let ?fs' = "map (\<lambda>e. projr (f e)) es'"
  have all: "\<forall>e \<in> set es. f e = Inr (projr (f e))"
  proof
    fix e assume "e \<in> set es"
    then have "f e \<in> set (map f es)" by simp
    with assms(1) have "f e \<in> set (map Inr fs)" by simp
    then show "f e = Inr (projr (f e))" by auto
  qed
  from assms(2) have "set es' = set es" by (rule mset_eq_setD)
  with all have 1: "map f es' = map Inr ?fs'" by simp
  have "mset ?fs' = image_mset (\<lambda>e. projr (f e)) (mset es')" by simp
  also have "\<dots> = image_mset (\<lambda>e. projr (f e)) (mset es)" by (simp add: assms(2))
  also have "\<dots> = image_mset projr (mset (map f es))" by (simp add: image_mset.compositionality comp_def)
  also have "\<dots> = mset fs"
    unfolding assms(1) by (simp add: image_mset.compositionality comp_def)
  finally have "mset ?fs' = mset fs" .
  with 1 show ?thesis by blast
qed

lemma join_sorted_permuted:
  assumes "mset fs' = mset fs"
  shows "join_sorted op fs' = join_sorted op fs"
proof -
  have "mset (sort (map parenthesized fs)) = mset (map parenthesized fs')"
    using assms by simp
  then have "sort (map parenthesized fs') = sort (map parenthesized fs)"
    by (intro properties_for_sort) simp_all
  then show ?thesis by (simp add: join_sorted_def)
qed

lemma to_query_influx_each_iff:
  "to_query_influx_each L es = Inr fs \<longleftrightarrow> map (to_query_influx L) es = map Inr fs"
proof (induction es arbitrary: fs)
  case Nil
  show ?case by auto
next
  case (Cons e es)
  show ?case
  proof (cases "to_query_influx L e")
    case (Inl err)
    then show ?thesis by auto
  next
    case (Inr x)
    show ?thesis
    proof (cases fs)
      case Nil
      with Inr show ?thesis by (simp split: sum.splits)
    next
      case (Cons y ys)
      with Inr Cons.IH [of ys] show ?thesis by (auto split: sum.splits)
    qed
  qed
qed

lemma to_query_pandas_each_iff:
  "to_query_pandas_each L es = Inr fs \<longleftrightarrow> map (to_query_pandas L) es = map Inr fs"
proof (induction es arbitrary: fs)
  case Nil
  show ?case by auto
next
  case (Cons e es)
  show ?case
  proof (cases "to_query_pandas L e")
    case (Inl err)
    then show ?thesis by auto
  next
    case (Inr x)
    show ?thesis
    proof (cases fs)
      case Nil
      with Inr show ?thesis by (simp split: sum.splits)
    next
      case (Cons y ys)
      with Inr Cons.IH [of ys] show ?thesis by (auto split: sum.splits)
    qed
  qed
qed

lemma to_query_mongo_each_iff:
  "to_query_mongo_each L es = Inr fs \<longleftrightarrow> map (to_query_mongo L) es = map Inr fs"
proof (induction es arbitrary: fs)
  case Nil
  show ?case by auto
next
  case (Cons e es)
  show ?case
  proof (cases "to_query_mongo L e")
    case (Inl err)
    then show ?thesis by auto
  next
    case (Inr x)
    show ?thesis
    proof (cases fs)
      case Nil
      with Inr show ?thesis by (simp split: sum.splits)
    next
      case (Cons y ys)
      with Inr Cons.IH [of ys] show ?thesis by (auto split: sum.splits)
    qed
  qed
qed

lemma to_query_influx_permuted:
  assumes "mset es' = mset es" and "to_query_influx L (Logical k es) = Inr s"
  shows "to_query_influx L (Logical k es') = Inr s"
proof -
  from assms(2) obtain fs where fs: "to_query_influx_each L es = Inr fs"
    and s: "s = join_sorted (operator_influx (LogicalC k)) fs"
    by (auto split: sum.splits)
  from fs have "map (to_query_influx L) es = map Inr fs" by (simp add: to_query_influx_each_iff)
  from map_Inr_permuted [OF this assms(1)] obtain fs' where
    "map (to_query_influx L) es' = map Inr fs'" and m: "mset fs' = mset fs" by blast
  then have "to_query_influx_each L es' = Inr fs'" by (simp add: to_query_influx_each_iff)
  with s join_sorted_permuted [OF m] show ?thesis by simp
qed

lemma to_query_pandas_permuted:
  assumes "mset es' = mset es" and "to_query_pandas L (Logical k es) = Inr s"
  shows "to_query_pandas L (Logical k es') = Inr s"
proof -
  from assms(2) obtain fs where fs: "to_query_pandas_each L es = Inr fs"
    and s: "s = join_sorted (operator_pandas (LogicalC k)) fs"
    by (auto split: sum.splits)
  from fs have "map (to_query_pandas L) es = map Inr fs" by (simp add: to_query_pandas_each_iff)
  from map_Inr_permuted [OF this assms(1)] obtain fs' where
    "map (to_query_pandas L) es' = map Inr fs'" and m: "mset fs' = mset fs" by blast
  then have "to_query_pandas_each L es' = Inr fs'" by (simp add: to_query_pandas_each_iff)
  with s join_sorted_permuted [OF m] show ?thesis by simp
qed

text \<open>
  C2. Let the child list \<open>es'\<close> be a permutation of \<open>es\<close>. If the conjunction or disjunction
  of \<open>es\<close> renders to a string for the time-series target, that of \<open>es'\<close> renders to the same
  string, and likewise for the tabular-mask target. When the children render to the
  fragments \<open>fs\<close>, the node renders to the parenthesized fragments, sorted
  lexicographically and joined with the operator of the target.
\<close>

theorem logical_rendering_sorted:
  assumes "mset es' = mset es"
  shows "(to_query_influx L (Logical k es) = Inr s \<longrightarrow> to_query_influx L (Logical k es') = Inr s)
       \<and> (to_query_pandas L (Logical k es) = Inr t \<longrightarrow> to_query_pandas L (Logical k es') = Inr t)
       \<and> (map (to_query_influx L) es = map Inr fs \<longrightarrow>
            to_query_influx L (Logical k es)
              = Inr (join (if k = And then '' AND '' else '' OR '') (sort (map (\<lambda>f. ''('' @ f @ '')'') fs))))
       \<and> (map (to_query_pandas L) es = map Inr gs \<longrightarrow>
            to_query_pandas L (Logical k es)
              = Inr (join (if k = And then '' & '' else '' | '') (sort (map (\<lambda>f. ''('' @ f @ '')'') gs))))"
proof (intro conjI impI)
  assume "to_query_influx L (Logical k es) = Inr s"
  with assms show "to_query_influx L (Logical k es') = Inr s" by (rule to_query_influx_permuted)
next
  assume "to_query_pandas L (Logical k es) = Inr t"
  with assms show "to_query_pandas L (Logical k es') = Inr t" by (rule to_query_pandas_permuted)
next
  assume "map (to_query_influx L) es = map Inr fs"
  then have "to_query_influx_each L es = Inr fs" by (simp add: to_query_influx_each_iff)
  then show "to_query_influx L (Logical k es)
      = Inr (join (if k = And then '' AND '' else '' OR '') (sort (map (\<lambda>f. ''('' @ f @ '')'') fs)))"
    by (cases k) (simp_all add: join_sorted_def separator_def parenthesized_def [abs_def])
next
  assume "map (to_query_pandas L) es = map Inr gs"
  then have "to_query_pandas_each L es = Inr gs" by (simp add: to_query_pandas_each_iff)
  then show "to_query_pandas L (Logical k es)
      = Inr (join (if k = And then '' & '' else '' | '') (sort (map (\<lambda>f. ''('' @ f @ '')'') gs)))"
    by (cases k) (simp_all add: join_sorted_def separator_def parenthesized_def [abs_def])
qed


theorem logical_rendering_sorted_witness:
  "mset [Compare Equal ''a'' (IntLiteral (IntVal 2)), Compare Equal ''b'' (IntLiteral (IntVal 1))]
     = mset [Compare Equal ''b'' (IntLiteral (IntVal 1)), Compare Equal ''a'' (IntLiteral (IntVal 2))]
   \<and> to_query_influx example_lib
         (Logical Or [Compare Equal ''b'' (IntLiteral (IntVal 1)), Compare Equal ''a'' (IntLiteral (IntVal 2))])
       = Inr (''('' @ double_quoted ''a'' @ '' = 2) OR ('' @ double_quoted ''b'' @ '' = 1)'')
   \<and> to_query_influx example_lib
         (Logical Or [Compare Equal ''a'' (IntLiteral (IntVal 2)), Compare Equal ''b'' (IntLiteral (IntVal 1))])
       = Inr (''('' @ double_quoted ''a'' @ '' = 2) OR ('' @ double_quoted ''b'' @ '' = 1)'')
   \<and> to_query_pandas example_lib
         (Logical Or [Compare Equal ''b'' (IntLiteral (IntVal 1)), Compare Equal ''a'' (IntLiteral (IntVal 2))])
       = Inr ''(a == 2) | (b == 1)''
   \<and> to_query_pandas example_lib
         (Logical Or [Compare Equal ''a'' (IntLiteral (IntVal 2)), Compare Equal ''b'' (IntLiteral (IntVal 1))])
       = Inr ''(a == 2) | (b == 1)''"
proof -
  let ?es = "[Compare Equal ''b'' (IntLiteral (IntVal 1)), Compare Equal ''a'' (IntLiteral (IntVal 2))]"
  let ?es' = "[Compare Equal ''a'' (IntLiteral (IntVal 2)), Compare Equal ''b'' (IntLiteral (IntVal 1))]"
  have p: "mset ?es' = mset ?es" by simp
  have i: "to_query_influx example_lib (Logical Or ?es)
             = Inr (''('' @ double_quoted ''a'' @ '' = 2) OR ('' @ double_quoted ''b'' @ '' = 1)'')"
    by (simp add: BinaryBooleanExpr_to_query_influx_def format_binary_def format3_def
          join_sorted_def separator_def parenthesized_def double_quoted_def repr_int_def
          digits.simps)
  have q: "to_query_pandas example_lib (Logical Or ?es) = Inr ''(a == 2) | (b == 1)''"
    by (simp add: BinaryBooleanExpr_to_query_pandas_def format_binary_def format3_def
          join_sorted_def separator_def parenthesized_def repr_int_def digits.simps)
  from logical_rendering_sorted [OF p, of example_lib Or] i q
  have "to_query_influx example_lib (Logical Or ?es')
          = Inr (''('' @ double_quoted ''a'' @ '' = 2) OR ('' @ double_quoted ''b'' @ '' = 1)'')"
    and "to_query_pandas example_lib (Logical Or ?es') = Inr ''(a == 2) | (b == 1)''"
    by blast+
  with p i q show ?thesis by blast
qed

text \<open>
  C10. For the document-store target a conjunction or disjunction whose children render
  to the fragments \<open>ms\<close> renders to the list \<open>ms\<close>, in the order of the children, under the
  operator key; the reversed child list renders to the reversed list.
\<close>

theorem mongo_logical_order:
  "map (to_query_mongo L) es = map Inr ms \<longrightarrow>
     to_query_mongo L (Logical k es)
       = Inr (MDict [(MStr (if k = And then ''$and'' else ''$or''), MList ms)])
     \<and> to_query_mongo L (Logical k (rev es))
       = Inr (MDict [(MStr (if k = And then ''$and'' else ''$or''), MList (rev ms))])"
proof
  assume a: "map (to_query_mongo L) es = map Inr ms"
  then have "map (to_query_mongo L) (rev es) = map Inr (rev ms)"
    by (simp add: rev_map [symmetric])
  with a have "to_query_mongo_each L es = Inr ms" "to_query_mongo_each L (rev es) = Inr (rev ms)"
    by (simp_all only: to_query_mongo_each_iff)
  then show "to_query_mongo L (Logical k es)
       = Inr (MDict [(MStr (if k = And then ''$and'' else ''$or''), MList ms)])
     \<and> to_query_mongo L (Logical k (rev es))
       = Inr (MDict [(MStr (if k = And then ''$and'' else ''$or''), MList (rev ms))])"
    by (cases k) simp_all
qed

theorem mongo_logical_order_witness:
  "to_query_mongo example_lib
      (Logical And [Compare Equal ''b'' (IntLiteral (IntVal 1)), Compare Equal ''a'' (IntLiteral (IntVal 2))])
     = Inr (MDict [(MStr ''$and'',
              MList [MDict [(MStr ''b'', MDict [(MStr ''$eq'', MInt 1)])],
                     MDict [(MStr ''a'', MDict [(MStr ''$eq'', MInt 2)])]])])
   \<and> to_query_mongo example_lib
      (Logical And [Compare Equal ''a'' (IntLiteral (IntVal 2)), Compare Equal ''b'' (IntLiteral (IntVal 1))])
     = Inr (MDict [(MStr ''$and'',
              MList [MDict [(MStr ''a'', MDict [(MStr ''$eq'', MInt 2)])],
                     MDict [(MStr ''b'', MDict [(MStr ''$eq'', MInt 1)])]])])
   \<and> to_query_mongo example_lib
      (Logical And [Compare Equal ''b'' (IntLiteral (IntVal 1)), Compare Equal ''a'' (IntLiteral (IntVal 2))])
     \<noteq> to_query_mongo example_lib
      (Logical And [Compare Equal ''a'' (IntLiteral (IntVal 2)), Compare Equal ''b'' (IntLiteral (IntVal 1))])"
proof -
  let ?es = "[Compare Equal ''b'' (IntLiteral (IntVal 1)), Compare Equal ''a'' (IntLiteral (IntVal 2))]"
  let ?ms = "[MDict [(MStr ''b'', MDict [(MStr ''$eq'', MInt 1)])],
              MDict [(MStr ''a'', MDict [(MStr ''$eq'', MInt 2)])]]"
  have "map (to_query_mongo example_lib) ?es = map Inr ?ms"
    by (simp add: BinaryBooleanExpr_to_query_mongo_def)
  with mongo_logical_order [of example_lib ?es ?ms And] show ?thesis by simp
qed

text \<open>
  C5, as stated, fails: the negation of \<^verbatim>\<open>{f: {'__eq__': 1}}\<close> renders to
  \<^verbatim>\<open>{f: {'$not': {'$eq': 1}}}\<close>, not to \<^verbatim>\<open>{f: {'$not': 1}}\<close>.
\<close>

theorem not_mongo_counterexample:
  "to_query_mongo example_lib (Not_expr (Compare Equal ''f'' (IntLiteral (IntVal 1))))
     = Inr (MDict [(MStr ''f'', MDict [(MStr ''$not'', MDict [(MStr ''$eq'', MInt 1)])])])
   \<and> to_query_mongo example_lib (Not_expr (Compare Equal ''f'' (IntLiteral (IntVal 1))))
     \<noteq> Inr (MDict [(MStr ''f'', MDict [(MStr ''$not'', MInt 1)])])"
  by (simp add: BinaryBooleanExpr_to_query_mongo_def Not_to_query_mongo_def)

text \<open>
  C5, amended. For the document-store target the negation of an equality on field \<open>f\<close>
  renders to a mapping keyed by \<open>f\<close> whose value is \<^verbatim>\<open>{'$not': {'$eq': v}}\<close>: the negate
  operator wraps the whole value that the child's fragment binds to the field. In
  general, when the child's fragment is a mapping whose first entry is \<open>(k, x)\<close>, the
  negation renders to \<^verbatim>\<open>{k: {'$not': x}}\<close>.
\<close>

theorem not_pushed_inward:
  "(literal_to_query_mongo L v = Inr m \<longrightarrow>
      to_query_mongo L (Not_expr (Compare Equal f v))
        = Inr (MDict [(MStr f, MDict [(MStr ''$not'', MDict [(MStr ''$eq'', m)])])]))
   \<and> (to_query_mongo L e = Inr (MDict ((k, x) # rest)) \<longrightarrow>
      to_query_mongo L (Not_expr e) = Inr (MDict [(k, MDict [(MStr ''$not'', x)])]))"
  by (simp add: BinaryBooleanExpr_to_query_mongo_def Not_to_query_mongo_def)

theorem not_pushed_inward_witness:
  "literal_to_query_mongo example_lib (StringLiteral ''web1'') = Inr (MStr ''web1'')
   \<and> to_query_mongo example_lib (Not_expr (Compare Equal ''host'' (StringLiteral ''web1'')))
     = Inr (MDict [(MStr ''host'', MDict [(MStr ''$not'', MDict [(MStr ''$eq'', MStr ''web1'')])])])
   \<and> to_query_mongo example_lib (Logical Or [Compare Equal ''a'' (IntLiteral (IntVal 2))])
     = Inr (MDict [(MStr ''$or'', MList [MDict [(MStr ''a'', MDict [(MStr ''$eq'', MInt 2)])]])])
   \<and> to_query_mongo example_lib (Not_expr (Logical Or [Compare Equal ''a'' (IntLiteral (IntVal 2))]))
     = Inr (MDict [(MStr ''$or'',
             MDict [(MStr ''$not'', MList [MDict [(MStr ''a'', MDict [(MStr ''$eq'', MInt 2)])]])])])"
proof -
  have 1: "literal_to_query_mongo example_lib (StringLiteral ''web1'') = Inr (MStr ''web1'')"
    by simp
  have 2: "to_query_mongo example_lib (Logical Or [Compare Equal ''a'' (IntLiteral (IntVal 2))])
     = Inr (MDict [(MStr ''$or'', MList [MDict [(MStr ''a'', MDict [(MStr ''$eq'', MInt 2)])]])])"
    by (simp add: BinaryBooleanExpr_to_query_mongo_def)
  from 1 2
    not_pushed_inward [of example_lib "StringLiteral ''web1''" "MStr ''web1''" "''host''"
      "Logical Or [Compare Equal ''a'' (IntLiteral (IntVal 2))]" "MStr ''$or''"
      "MList [MDict [(MStr ''a'', MDict [(MStr ''$eq'', MInt 2)])]]" "[]"]
  show ?thesis by simp
qed

section \<open>Properties of construction\<close>

lemmas class_defs = issubclass_def isinstance_def subclasses_def registry_def
  Expr_classes_def LiteralExpr_classes_def OperatorExpr_classes_def
  cls_keys_from_json_def init_args_from_json_def

lemmas build_defs = expect_def as_instance_def caught_def and_then_def LiteralExpr_init_def
  Compare_new_def RegexMatch_new_def NullTest_new_def

lemmas normalize_defs = startswith_def endswith_def slice_1_m1_def condition_dict_def
  or_of_equalities_def

text \<open>
  C9. \<^verbatim>\<open>from_json\<close> of a class returns a node that is an instance of that class as it is,
  whatever the bound on the depth.
\<close>

theorem from_json_passes_through:
  "isinstance e c \<Longrightarrow> from_json n c (JExpr e) = Some (Inr e)"
  by (simp add: expect_def as_instance_def)

theorem from_json_passes_through_witness:
  "isinstance (Compare Equal ''f'' (IntLiteral (IntVal 1))) BooleanExpr
   \<and> from_json 0 BooleanExpr (JExpr (Compare Equal ''f'' (IntLiteral (IntVal 1))))
     = Some (Inr (Compare Equal ''f'' (IntLiteral (IntVal 1))))"
proof -
  have i: "isinstance (Compare Equal ''f'' (IntLiteral (IntVal 1))) BooleanExpr"
    by (simp add: isinstance_def issubclass_def)
  from i from_json_passes_through [OF i, of 0] show ?thesis by simp
qed

lemma SchemaLiteral_from_json_str:
  "from_json (Suc n) (LiteralC SchemaLiteral_c) (JStr f) = Some (Inr (Literal (SchemaLiteral f)))"
  by (simp add: class_defs build_defs)

lemma LiteralExpr_from_json_scalar:
  "from_json (Suc n) LiteralExpr (JStr s) = Some (Inr (Literal (StringLiteral s)))"
  "from_json (Suc n) LiteralExpr (JBool b) = Some (Inr (Literal (BooleanLiteral b)))"
  "from_json (Suc n) LiteralExpr (JInt i) = Some (Inr (Literal (IntLiteral (IntVal i))))"
  "from_json (Suc n) LiteralExpr (JFloat x) = Some (Inr (Literal (FloatLiteral x)))"
  "from_json (Suc n) LiteralExpr (JDateTime t) = Some (Inr (Literal (DateTimeLiteral t)))"
  by (simp_all add: class_defs build_defs)

lemma LiteralExpr_from_json_node:
  "from_json n LiteralExpr (JExpr (Literal l)) = Some (Inr (Literal l))"
  by (simp add: class_defs build_defs)

lemma LiteralExpr_from_json_other:
  "from_json (Suc n) LiteralExpr JNone
     = Some (Inl (InvalidQuery (Unexpected_expression_type JNone LiteralExpr)))"
  "from_json (Suc n) LiteralExpr (JList vs)
     = Some (Inl (InvalidQuery (Unexpected_expression_type (JList vs) LiteralExpr)))"
  "from_json (Suc n) LiteralExpr (JDict d)
     = Some (Inl (InvalidQuery (Unexpected_expression_type (JDict d) LiteralExpr)))"
  by (simp_all add: class_defs build_defs)

lemma BinaryBooleanExpr_operands:
  "from_json (Suc n) LiteralExpr right = Some (Inr (Literal l)) \<Longrightarrow>
   init (Suc n) (NullC k) (Kw_left_right (JStr f) right)
     = (case l of
          BooleanLiteral b \<Rightarrow> Some (Inr (NullTest k f b))
        | _ \<Rightarrow> Some (Inl (InvalidQuery (Operand_not_boolean (cls_key (NullC k))))))"
  by (simp add: SchemaLiteral_from_json_str and_then_def NullTest_new_def
           del: from_json.simps split: literal.splits)

lemma BinaryBooleanExpr_no_literal:
  "from_json (Suc n) LiteralExpr right = Some (Inl err) \<Longrightarrow>
   init (Suc n) (NullC k) (Kw_left_right (JStr f) right) = Some (Inl err)"
  by (simp add: SchemaLiteral_from_json_str and_then_def del: from_json.simps)

text \<open>
  C6, as stated, fails: with the operand \<^verbatim>\<open>None\<close> the constructor of \<^verbatim>\<open>Null\<close> fails in
  \<^verbatim>\<open>LiteralExpr.from_json\<close>, with an \<^verbatim>\<open>InvalidQuery\<close> whose message does not name the
  operator.
\<close>

theorem null_operand_counterexample:
  "init 1 (NullC Null) (Kw_left_right (JStr ''f'') JNone)
     = Some (Inl (InvalidQuery (Unexpected_expression_type JNone LiteralExpr)))
   \<and> init 1 (NullC Null) (Kw_left_right (JStr ''f'') JNone)
     \<noteq> Some (Inl (InvalidQuery (Operand_not_boolean (Some (KName ''__null__'')))))"
  using BinaryBooleanExpr_no_literal [OF LiteralExpr_from_json_other(1), of 0 Null "''f''"]
  by simp

text \<open>
  C6, amended. With a field name as left operand, the constructor of \<^verbatim>\<open>Null\<close> or
  \<^verbatim>\<open>Missing\<close> succeeds on a boolean right operand; it fails with the \<^verbatim>\<open>InvalidQuery\<close> that
  names the operator's key on a string, an integer, a float or a timestamp, and on a
  literal node that is no \<^verbatim>\<open>BooleanLiteral\<close>; on \<^verbatim>\<open>None\<close>, a list or a mapping it fails with
  the \<^verbatim>\<open>InvalidQuery\<close> of \<^verbatim>\<open>LiteralExpr.from_json\<close>, which names the value and not the
  operator.
\<close>

theorem null_operand_check:
  "init (Suc n) (NullC k) (Kw_left_right (JStr f) (JBool b)) = Some (Inr (NullTest k f b))
   \<and> (is_scalar right \<and> (\<forall>b. right \<noteq> JBool b) \<longrightarrow>
        init (Suc n) (NullC k) (Kw_left_right (JStr f) right)
          = Some (Inl (InvalidQuery (Operand_not_boolean (cls_key (NullC k))))))
   \<and> ((\<forall>b. l \<noteq> BooleanLiteral b) \<longrightarrow>
        init (Suc n) (NullC k) (Kw_left_right (JStr f) (JExpr (Literal l)))
          = Some (Inl (InvalidQuery (Operand_not_boolean (cls_key (NullC k))))))
   \<and> (other \<in> {JNone, JList vs, JDict d} \<longrightarrow>
        init (Suc n) (NullC k) (Kw_left_right (JStr f) other)
          = Some (Inl (InvalidQuery (Unexpected_expression_type other LiteralExpr))))
   \<and> cls_key (NullC Null) = Some (KName ''__null__'')
   \<and> cls_key (NullC Missing) = Some (KName ''__missing__'')"
proof (intro conjI impI)
  show "init (Suc n) (NullC k) (Kw_left_right (JStr f) (JBool b)) = Some (Inr (NullTest k f b))"
    using BinaryBooleanExpr_operands [OF LiteralExpr_from_json_scalar(2)] by simp
next
  assume r: "is_scalar right \<and> (\<forall>b. right \<noteq> JBool b)"
  then consider s where "right = JStr s" | i where "right = JInt i"
    | x where "right = JFloat x" | t where "right = JDateTime t"
    by (cases right) auto
  then show "init (Suc n) (NullC k) (Kw_left_right (JStr f) right)
          = Some (Inl (InvalidQuery (Operand_not_boolean (cls_key (NullC k)))))"
  proof cases
    case 1
    then show ?thesis using BinaryBooleanExpr_operands [OF LiteralExpr_from_json_scalar(1)] by simp
  next
    case 2
    then show ?thesis using BinaryBooleanExpr_operands [OF LiteralExpr_from_json_scalar(3)] by simp
  next
    case 3
    then show ?thesis using BinaryBooleanExpr_operands [OF LiteralExpr_from_json_scalar(4)] by simp
  next
    case 4
    then show ?thesis using BinaryBooleanExpr_operands [OF LiteralExpr_from_json_scalar(5)] by simp
  qed
next
  assume nb: "\<forall>b. l \<noteq> BooleanLiteral b"
  have "init (Suc n) (NullC k) (Kw_left_right (JStr f) (JExpr (Literal l)))
          = (case l of
               BooleanLiteral b \<Rightarrow> Some (Inr (NullTest k f b))
             | _ \<Rightarrow> Some (Inl (InvalidQuery (Operand_not_boolean (cls_key (NullC k))))))"
    by (rule BinaryBooleanExpr_operands [OF LiteralExpr_from_json_node])
  also from nb have "\<dots> = Some (Inl (InvalidQuery (Operand_not_boolean (cls_key (NullC k)))))"
    by (cases l) auto
  finally show "init (Suc n) (NullC k) (Kw_left_right (JStr f) (JExpr (Literal l)))
          = Some (Inl (InvalidQuery (Operand_not_boolean (cls_key (NullC k)))))" .
next
  assume "other \<in> {JNone, JList vs, JDict d}"
  then show "init (Suc n) (NullC k) (Kw_left_right (JStr f) other)
          = Some (Inl (InvalidQuery (Unexpected_expression_type other LiteralExpr)))"
    using BinaryBooleanExpr_no_literal [OF LiteralExpr_from_json_other(1)]
      BinaryBooleanExpr_no_literal [OF LiteralExpr_from_json_other(2)]
      BinaryBooleanExpr_no_literal [OF LiteralExpr_from_json_other(3)]
    by auto
qed simp_all

theorem null_operand_check_witness:
  "init (Suc 0) (NullC Null) (Kw_left_right (JStr ''f'') (JBool True))
     = Some (Inr (NullTest Null ''f'' True))
   \<and> is_scalar (JInt 5) \<and> JInt 5 \<noteq> JBool True \<and> JInt 5 \<noteq> JBool False
   \<and> init (Suc 0) (NullC Null) (Kw_left_right (JStr ''f'') (JInt 5))
     = Some (Inl (InvalidQuery (Operand_not_boolean (Some (KName ''__null__'')))))
   \<and> init (Suc 0) (NullC Null) (Kw_left_right (JStr ''f'') (JExpr (Literal (StringLiteral ''x''))))
     = Some (Inl (InvalidQuery (Operand_not_boolean (Some (KName ''__null__'')))))
   \<and> init (Suc 0) (NullC Null) (Kw_left_right (JStr ''f'') JNone)
     = Some (Inl (InvalidQuery (Unexpected_expression_type JNone LiteralExpr)))"
  using null_operand_check [of 0 Null "''f''" True "JInt 5" "StringLiteral ''x''" JNone "[]" "[]"]
  by simp

lemma null_end_to_end:
  "from_json (Suc (Suc (Suc n))) BooleanExpr (JDict [(''f'', JDict [(''__missing__'', JStr ''yes'')])])
     = Some (Inl (InvalidQuery (Operand_not_boolean (Some (KName ''__missing__'')))))"
  "from_json (Suc (Suc (Suc n))) BooleanExpr (JDict [(''f'', JDict [(''__null__'', JBool True)])])
     = Some (Inr (NullTest Null ''f'' True))"
  by (simp_all add: class_defs build_defs normalize_defs)

text \<open>
  C1, as stated, fails: the conjunction built from the filter does not render to
  \<^verbatim>\<open>host = 'web1' AND status > 200\<close> for the relational target.
\<close>

theorem end_to_end_example_1_counterexample:
  "from_json 3 BooleanExpr
      (JDict [(''host'', JStr ''web1''), (''status'', JDict [(''__gt__'', JInt 200)])])
     = Some (Inr (Logical And [Compare Equal ''host'' (StringLiteral ''web1''),
                               Compare GreaterThan ''status'' (IntLiteral (IntVal 200))]))
   \<and> to_query_mysql example_lib
      (Logical And [Compare Equal ''host'' (StringLiteral ''web1''),
                    Compare GreaterThan ''status'' (IntLiteral (IntVal 200))])
     \<noteq> Inr ''host = 'web1' AND status > 200''"
proof (intro conjI)
  show "to_query_mysql example_lib
      (Logical And [Compare Equal ''host'' (StringLiteral ''web1''),
                    Compare GreaterThan ''status'' (IntLiteral (IntVal 200))])
     \<noteq> Inr ''host = 'web1' AND status > 200''"
    by (simp add: BinaryBooleanExpr_to_query_mysql_def format_binary_def format3_def
          join_sorted_def separator_def parenthesized_def single_quoted_def repr_int_def
          digits.simps)
qed (simp add: class_defs build_defs normalize_defs eval_nat_numeral)

text \<open>
  C1, amended. The filter \<^verbatim>\<open>{"host": "web1", "status": {"__gt__": 200}}\<close> normalizes to a
  conjunction of two branches, from which \<^verbatim>\<open>BooleanExpr.from_json\<close> builds an \<^verbatim>\<open>And\<close> of an
  \<^verbatim>\<open>Equal\<close> and a \<^verbatim>\<open>GreaterThan\<close> (a depth of three suffices), and this node renders for
  the relational target to \<^verbatim>\<open>(host = 'web1') AND (status > 200)\<close>, each branch in
  parentheses.
\<close>

theorem end_to_end_example_1:
  "normalize_eval_expr_dict
      (JDict [(''host'', JStr ''web1''), (''status'', JDict [(''__gt__'', JInt 200)])])
     = Inr (JDict [(''__and__'', JList [JDict [(''host'', JDict [(''__eq__'', JStr ''web1'')])],
                                       JDict [(''status'', JDict [(''__gt__'', JInt 200)])]])])
   \<and> from_json (Suc (Suc (Suc n))) BooleanExpr
      (JDict [(''host'', JStr ''web1''), (''status'', JDict [(''__gt__'', JInt 200)])])
     = Some (Inr (Logical And [Compare Equal ''host'' (StringLiteral ''web1''),
                               Compare GreaterThan ''status'' (IntLiteral (IntVal 200))]))
   \<and> to_query_mysql L
      (Logical And [Compare Equal ''host'' (StringLiteral ''web1''),
                    Compare GreaterThan ''status'' (IntLiteral (IntVal 200))])
     = Inr ''(host = 'web1') AND (status > 200)''"
proof (intro conjI)
  show "to_query_mysql L
      (Logical And [Compare Equal ''host'' (StringLiteral ''web1''),
                    Compare GreaterThan ''status'' (IntLiteral (IntVal 200))])
     = Inr ''(host = 'web1') AND (status > 200)''"
    by (simp add: BinaryBooleanExpr_to_query_mysql_def format_binary_def format3_def
          join_sorted_def separator_def parenthesized_def single_quoted_def repr_int_def
          digits.simps)
qed (simp_all add: class_defs build_defs normalize_defs)

end
